theory Spec2Isabelle
  imports Main
begin

section \<open>Python values, dictionaries and exceptions\<close>

text \<open>
  The values that travel through keyword arguments and table cells. \<open>VNone\<close> stands
  for Python's \<open>None\<close> and for the missing value (NaN) of a column. A nested dictionary
  (the \<open>result_format\<close> value) keeps its items in insertion order.
\<close>

datatype pyval =
    VNone
  | VBool bool
  | VInt int
  | VStr string
  | VTuple "pyval list"
  | VList "pyval list"
  | VDict "(string \<times> pyval) list"

text \<open>
  Exceptions are values. \<open>KeyError\<close> carries the key that was looked up; the store of
  evaluation parameters is generic in its key type, so the exception type is too.
\<close>

datatype 'k exn =
    KeyError 'k
  | ValueError string
  | TypeError string
  | AttributeError string
  | AssertionError string
  | MetricError string
  | IndexingError string
  | AnalysisException string

type_synonym error = "pyval exn"

text \<open>Keyword arguments (\<open>metric_domain_kwargs\<close>, \<open>metric_value_kwargs\<close>) are dictionaries
  keyed by strings; two of them are equal when they hold the same items.\<close>

type_synonym kwargs = "string \<rightharpoonup> pyval"

subsection \<open>An insertion-ordered dictionary\<close>

text \<open>
  \<open>d[k] = v\<close> overwrites the value of a key that is present, in place, and appends a
  new key at the end; \<open>d[k]\<close> raises \<open>KeyError\<close> for a key that is absent.
\<close>

primrec dict_setitem :: "('k \<times> 'v) list \<Rightarrow> 'k \<Rightarrow> 'v \<Rightarrow> ('k \<times> 'v) list" where
  "dict_setitem [] k v = [(k, v)]"
| "dict_setitem (p # ps) k v = (if fst p = k then (k, v) # ps else p # dict_setitem ps k v)"

definition dict_getitem :: "('k \<times> 'v) list \<Rightarrow> 'k \<Rightarrow> 'k exn + 'v" where
  "dict_getitem d k = (case map_of d k of None \<Rightarrow> Inl (KeyError k) | Some v \<Rightarrow> Inr v)"

definition dict_contains :: "('k \<times> 'v) list \<Rightarrow> 'k \<Rightarrow> bool" where
  "dict_contains d k = (k \<in> set (map fst d))"

definition dict_keys :: "('k \<times> 'v) list \<Rightarrow> 'k list" where
  "dict_keys d = map fst d"

section \<open>The evaluation parameter store (data\_context/store/store.py)\<close>

text \<open>
  \<open>EvaluationParameterStore\<close> wraps one dictionary, \<open>self.store\<close>. Each method is a
  function of the store's state; \<open>set\<close> returns the new state.
\<close>

record ('k, 'v) EvaluationParameterStore =
  store :: "('k \<times> 'v) list"

definition EvaluationParameterStore_init :: "('k, 'v) EvaluationParameterStore" where
  "EvaluationParameterStore_init = \<lparr>store = []\<rparr>"

definition EvaluationParameterStore_get ::
  "('k, 'v) EvaluationParameterStore \<Rightarrow> 'k \<Rightarrow> 'k exn + 'v" where
  "EvaluationParameterStore_get self key = dict_getitem (store self) key"

definition EvaluationParameterStore_set ::
  "('k, 'v) EvaluationParameterStore \<Rightarrow> 'k \<Rightarrow> 'v \<Rightarrow> ('k, 'v) EvaluationParameterStore" where
  "EvaluationParameterStore_set self key val = self\<lparr>store := dict_setitem (store self) key val\<rparr>"

definition EvaluationParameterStore_has_key ::
  "('k, 'v) EvaluationParameterStore \<Rightarrow> 'k \<Rightarrow> bool" where
  "EvaluationParameterStore_has_key self key = dict_contains (store self) key"

definition EvaluationParameterStore_list_keys ::
  "('k, 'v) EvaluationParameterStore \<Rightarrow> 'k list" where
  "EvaluationParameterStore_list_keys self = dict_keys (store self)"

text \<open>A history of the store: the \<open>set\<close> calls made on it since it was created.\<close>

definition run_sets ::
  "('k \<times> 'v) list \<Rightarrow> ('k, 'v) EvaluationParameterStore \<Rightarrow> ('k, 'v) EvaluationParameterStore" where
  "run_sets calls s = foldl (\<lambda>s' (k, v). EvaluationParameterStore_set s' k v) s calls"

section \<open>Metric configurations and dependency resolution\<close>

text \<open>
  Modelled from the spec: \<open>MetricConfiguration\<close> (validator/validation\_graph.py) is not
  among the sources. The spec's data model gives it three fields: the name, the domain
  kwargs and the value kwargs; two configurations are equal when the three are.
\<close>

record MetricConfiguration =
  metric_name :: string
  metric_domain_kwargs :: kwargs
  metric_value_kwargs :: kwargs

text \<open>\<open>s.endswith(suf)\<close>, and \<open>s[: -len(suf)]\<close> for a non-empty \<open>suf\<close>.\<close>

definition endswith :: "string \<Rightarrow> string \<Rightarrow> bool" where
  "endswith s suf = (length suf \<le> length s \<and> drop (length s - length suf) s = suf)"

definition strip_last :: "string \<Rightarrow> string \<Rightarrow> string" where
  "strip_last s suf = take (length s - length suf) s"

subsection \<open>metric\_provider.py: the enumerations\<close>

datatype MetricPartialFunctionTypes =
  MAP_FN | MAP_CONDITION_FN | WINDOW_FN | WINDOW_CONDITION_FN | AGGREGATE_FN

fun partial_value :: "MetricPartialFunctionTypes \<Rightarrow> string" where
  "partial_value MAP_FN = ''map_fn''"
| "partial_value MAP_CONDITION_FN = ''map_condition_fn''"
| "partial_value WINDOW_FN = ''window_fn''"
| "partial_value WINDOW_CONDITION_FN = ''window_condition_fn''"
| "partial_value AGGREGATE_FN = ''aggregate_fn''"

text \<open>Iterating over the enumeration class visits its members in definition order.\<close>

definition MetricPartialFunctionTypes_members :: "MetricPartialFunctionTypes list" where
  "MetricPartialFunctionTypes_members =
     [MAP_FN, MAP_CONDITION_FN, WINDOW_FN, WINDOW_CONDITION_FN, AGGREGATE_FN]"

subsection \<open>MapMetricProvider.\_get\_evaluation\_dependencies (column\_map\_metric.py)\<close>

text \<open>The dictionary of dependencies maps a role name to a configuration.\<close>

type_synonym dependencies = "string \<rightharpoonup> MetricConfiguration"

definition base_metric_value_kwargs :: "MetricConfiguration \<Rightarrow> kwargs" where
  "base_metric_value_kwargs metric =
     (\<lambda>k. if k \<noteq> ''result_format'' then metric_value_kwargs metric k else None)"

definition unexpected_condition_dependency :: "MetricConfiguration \<Rightarrow> string \<Rightarrow> dependencies" where
  "unexpected_condition_dependency metric suf =
     [''unexpected_condition'' \<mapsto>
        \<lparr>metric_name = strip_last (metric_name metric) suf,
         metric_domain_kwargs = metric_domain_kwargs metric,
         metric_value_kwargs = base_metric_value_kwargs metric\<rparr>]"

definition MapMetricProvider_get_evaluation_dependencies_hook ::
  "MetricConfiguration \<Rightarrow> dependencies" where
  "MapMetricProvider_get_evaluation_dependencies_hook metric =
     (if endswith (metric_name metric) ''.unexpected_count''
        then unexpected_condition_dependency metric ''.unexpected_count''
      else if endswith (metric_name metric) ''.unexpected_values''
        then unexpected_condition_dependency metric ''.unexpected_values''
      else if endswith (metric_name metric) ''.unexpected_index_list''
        then unexpected_condition_dependency metric ''.unexpected_index_list''
      else if endswith (metric_name metric) ''.unexpected_value_counts''
        then unexpected_condition_dependency metric ''.unexpected_value_counts''
      else if endswith (metric_name metric) ''.unexpected_rows''
        then unexpected_condition_dependency metric ''.unexpected_rows''
      else Map.empty)"

text \<open>The hook of the base class, \<open>MetricProvider._get_evaluation_dependencies\<close>.\<close>

definition MetricProvider_get_evaluation_dependencies_hook ::
  "MetricConfiguration \<Rightarrow> dependencies" where
  "MetricProvider_get_evaluation_dependencies_hook metric = Map.empty"

subsection \<open>MetricProvider.get\_evaluation\_dependencies (metric\_provider.py)\<close>

text \<open>
  Modelled from the spec: \<open>nested_update\<close> (core/util.py) is not among the sources. The
  spec says the \<open>metric_partial_fn\<close> dependency is added to those of the suffix rule, the
  roles being different keys: the second dictionary is merged into the first.
\<close>

definition nested_update :: "dependencies \<Rightarrow> dependencies \<Rightarrow> dependencies" where
  "nested_update d u = d ++ u"

text \<open>
  The loop over the partial kinds tests the metric's \<^emph>\<open>name\<close> against each kind's value;
  \<open>hook\<close> is the class's \<open>_get_evaluation_dependencies\<close>.
\<close>

definition partial_fn_step :: "MetricConfiguration \<Rightarrow> MetricPartialFunctionTypes \<Rightarrow> dependencies \<Rightarrow> dependencies" where
  "partial_fn_step metric metric_partial_type dependencies =
     (if endswith (metric_name metric) (partial_value metric_partial_type)
      then dependencies(''metric_partial_fn'' \<mapsto>
             \<lparr>metric_name = metric_name metric,
              metric_domain_kwargs = metric_domain_kwargs metric,
              metric_value_kwargs = metric_value_kwargs metric\<rparr>)
      else dependencies)"

definition get_evaluation_dependencies ::
  "(MetricConfiguration \<Rightarrow> dependencies) \<Rightarrow> MetricConfiguration \<Rightarrow> dependencies" where
  "get_evaluation_dependencies hook metric =
     (let dependencies = fold (partial_fn_step metric) MetricPartialFunctionTypes_members Map.empty;
          child_dependencies = hook metric
      in nested_update dependencies child_dependencies)"

definition derived_suffixes :: "string list" where
  "derived_suffixes =
     [''.unexpected_count'', ''.unexpected_values'', ''.unexpected_index_list'',
      ''.unexpected_value_counts'', ''.unexpected_rows'']"

definition ends_with_partial_kind :: "string \<Rightarrow> bool" where
  "ends_with_partial_kind name =
     list_ex (\<lambda>t. endswith name (partial_value t)) MetricPartialFunctionTypes_members"

text \<open>The last two characters of a name tell the suffixes apart.\<close>

definition tail2 :: "string \<Rightarrow> string" where
  "tail2 s = drop (length s - 2) s"

text \<open>The configuration of the spec's example, and a base name.\<close>

definition example_metric :: MetricConfiguration where
  "example_metric =
     \<lparr>metric_name = ''col.unique.unexpected_count'',
      metric_domain_kwargs = [''column'' \<mapsto> VStr ''a''],
      metric_value_kwargs = [''result_format'' \<mapsto> VStr ''BASIC'', ''threshold'' \<mapsto> VInt 5]\<rparr>"

definition example_base_metric :: MetricConfiguration where
  "example_base_metric =
     \<lparr>metric_name = ''col.unique'',
      metric_domain_kwargs = [''column'' \<mapsto> VStr ''a''],
      metric_value_kwargs = [''threshold'' \<mapsto> VInt 5]\<rparr>"

section \<open>Registration of provider classes\<close>

subsection \<open>Tags, engines and classes\<close>

datatype MetricFunctionTypes =
    FT_MAP_FN | FT_MAP_CONDITION_FN | FT_WINDOW_FN | FT_WINDOW_CONDITION_FN | FT_AGGREGATE_FN
  | FT_VALUE | FT_MAP_VALUES | FT_WINDOW_VALUES | FT_AGGREGATE_VALUE

fun function_value :: "MetricFunctionTypes \<Rightarrow> string" where
  "function_value FT_MAP_FN = ''map_fn''"
| "function_value FT_MAP_CONDITION_FN = ''map_condition_fn''"
| "function_value FT_WINDOW_FN = ''window_fn''"
| "function_value FT_WINDOW_CONDITION_FN = ''window_condition_fn''"
| "function_value FT_AGGREGATE_FN = ''aggregate_fn''"
| "function_value FT_VALUE = ''value''"
| "function_value FT_MAP_VALUES = ''map_values''"
| "function_value FT_WINDOW_VALUES = ''window_values''"
| "function_value FT_AGGREGATE_VALUE = ''aggregate_value''"

datatype MetricDomainTypes = COLUMN | COLUMN_PAIR | TABLE | OTHER

fun domain_value :: "MetricDomainTypes \<Rightarrow> string" where
  "domain_value COLUMN = ''column''"
| "domain_value COLUMN_PAIR = ''column_pair''"
| "domain_value TABLE = ''table''"
| "domain_value OTHER = ''other''"

text \<open>
  The value of an attribute that a decorator leaves on a method: a member of one of the
  three enumerations (\<open>metric_partial_fn\<close> stores \<open>MetricPartialFunctionTypes(partial_fn_type)\<close>
  and \<open>MetricDomainTypes(domain_type)\<close>, \<open>metric_value_fn\<close> stores
  \<open>MetricFunctionTypes(metric_fn_type)\<close>), or a plain value such as a string.
\<close>

datatype attr_value =
    Plain pyval
  | PartialType MetricPartialFunctionTypes
  | FunctionType MetricFunctionTypes
  | DomainType MetricDomainTypes

text \<open>
  \<open>a == "s"\<close>: the enumerations derive from \<open>Enum\<close> alone, so a member never equals a
  string; only a plain string does. \<open>a.value\<close> exists on members only.
\<close>

definition eq_str :: "attr_value \<Rightarrow> string \<Rightarrow> bool" where
  "eq_str a s = (a = Plain (VStr s))"

fun enum_value :: "attr_value \<Rightarrow> error + string" where
  "enum_value (PartialType t) = Inr (partial_value t)"
| "enum_value (FunctionType t) = Inr (function_value t)"
| "enum_value (DomainType t) = Inr (domain_value t)"
| "enum_value (Plain v) = Inl (AttributeError ''value'')"

text \<open>The class an engine attribute names; the last one is not an execution engine.\<close>

datatype engine_class =
    PandasExecutionEngine
  | SqlAlchemyExecutionEngine
  | SparkDFExecutionEngine
  | OtherExecutionEngine
  | NotAnExecutionEngine

definition issubclass_ExecutionEngine :: "engine_class \<Rightarrow> bool" where
  "issubclass_ExecutionEngine engine = (engine \<noteq> NotAnExecutionEngine)"

text \<open>
  An attribute of a provider class as the hooks see it: \<open>None\<close> in a field says that the
  attribute object does not have that attribute (\<open>hasattr\<close> is false).
\<close>

record metric_method =
  attr_name :: string
  m_metric_engine :: "engine_class option"
  m_metric_fn_type :: "attr_value option"
  m_domain_type :: "attr_value option"
  m_metric_definition_kwargs :: "kwargs option"
  m_metric_name :: "string option"
  m_renderer_type :: "string option"

text \<open>
  A provider class: its attributes as attribute lookup resolves them (\<open>None\<close>: the class
  has no such attribute), and the attribute objects the hook iterates over, in the
  hook's order (\<open>dir(cls)\<close> for the base hook, \<open>cls.__dict__\<close> for \<open>MapMetricProvider\<close>).
\<close>

record provider_class =
  class_name :: string
  cls_metric_name :: "string option"
  domain_keys :: "string list"
  value_keys :: "string list"
  cls_metric_fn_type :: "attr_value option"
  function_metric_name :: "string option"
  condition_metric_name :: "string option"
  condition_domain_keys :: "string list"
  function_domain_keys :: "string list"
  condition_value_keys :: "string list"
  function_value_keys :: "string list"
  attributes :: "metric_method list"

text \<open>The provider function handed to \<open>register_metric\<close>.\<close>

datatype provider =
    Method string
  | NoProvider
  | P_pandas_map_unexpected_count
  | P_pandas_column_map_index
  | P_pandas_column_map_values
  | P_pandas_column_map_value_counts
  | P_pandas_column_map_rows
  | P_sqlalchemy_map_unexpected_count
  | P_sqlalchemy_column_map_values
  | P_sqlalchemy_column_map_value_counts
  | P_sqlalchemy_column_map_rows
  | P_spark_map_unexpected_count
  | P_spark_map_unexpected_count_data
  | P_spark_column_map_values
  | P_spark_column_map_value_counts
  | P_spark_column_map_rows

text \<open>The keyword arguments of one call of \<open>register_metric\<close>.\<close>

record registration =
  reg_metric_name :: string
  reg_metric_domain_keys :: "string list"
  reg_metric_value_keys :: "string list"
  reg_execution_engine :: engine_class
  reg_metric_class :: string
  reg_metric_provider :: provider
  reg_metric_fn_type :: attr_value

text \<open>
  \<open>register_metric\<close> (expectations/registry.py) is not among the sources: the hooks take
  it as a parameter, a function from the registry and a call to the new registry or
  an exception. A run of calls stops at the first exception.
\<close>

fun register_all ::
  "('r \<Rightarrow> registration \<Rightarrow> error + 'r) \<Rightarrow> registration list \<Rightarrow> 'r \<Rightarrow> error + 'r" where
  "register_all register_metric [] r = Inr r"
| "register_all register_metric (c # cs) r =
     (case register_metric r c of
        Inl e \<Rightarrow> Inl e
      | Inr r' \<Rightarrow> register_all register_metric cs r')"

text \<open>
  Modelled from the spec: the registry behind \<open>register_metric\<close>, a table keyed by the
  pair of metric name and backend; registering a key that is present is an error.
\<close>

definition registry_key :: "registration \<Rightarrow> string \<times> engine_class" where
  "registry_key c = (reg_metric_name c, reg_execution_engine c)"

definition register_metric_spec :: "registration list \<Rightarrow> registration \<Rightarrow> error + registration list" where
  "register_metric_spec r c =
     (if registry_key c \<in> set (map registry_key r)
      then Inl (ValueError ''metric is already registered'')
      else Inr (r @ [c]))"

text \<open>The function kind a registry declares for a metric name on a backend.\<close>

definition declared_fn_type ::
  "registration list \<Rightarrow> string \<Rightarrow> engine_class \<Rightarrow> attr_value option" where
  "declared_fn_type r name engine =
     map_option reg_metric_fn_type (find (\<lambda>c. registry_key c = (name, engine)) r)"

text \<open>A kind is partial when it is a member of \<open>MetricPartialFunctionTypes\<close> or names one.\<close>

fun is_partial_kind :: "attr_value \<Rightarrow> bool" where
  "is_partial_kind (PartialType t) = True"
| "is_partial_kind (FunctionType t) =
     (function_value t \<in> set (map partial_value MetricPartialFunctionTypes_members))"
| "is_partial_kind (Plain (VStr s)) = (s \<in> set (map partial_value MetricPartialFunctionTypes_members))"
| "is_partial_kind _ = False"

subsection \<open>MapMetricProvider.\_register\_metric\_functions (column\_map\_metric.py)\<close>

definition reg ::
  "provider_class \<Rightarrow> engine_class \<Rightarrow> string \<Rightarrow> string list \<Rightarrow> string list \<Rightarrow> provider \<Rightarrow> attr_value
     \<Rightarrow> registration" where
  "reg cls engine name dkeys vkeys prov fn_type =
     \<lparr>reg_metric_name = name, reg_metric_domain_keys = dkeys, reg_metric_value_keys = vkeys,
      reg_execution_engine = engine, reg_metric_class = class_name cls,
      reg_metric_provider = prov, reg_metric_fn_type = fn_type\<rparr>"







subsection \<open>MetricProvider.\_register\_metric\_functions (metric\_provider.py)\<close>

text \<open>
  \<open>register_renderer\<close> is a parameter like \<open>register_metric\<close>; this is its call.
\<close>

record renderer_registration =
  ren_object_name :: "string option"
  ren_parent_class :: string
  ren_renderer_fn :: string

text \<open>
  \<open>metric_definition_kwargs.get("metric_name_suffix", "")\<close>, to be appended to the name:
  appending anything but a string to a string is a \<open>TypeError\<close>.
\<close>

definition metric_name_suffix :: "metric_method \<Rightarrow> error + string" where
  "metric_name_suffix m =
     (case m_metric_definition_kwargs m of
        None \<Rightarrow> Inr ''''
      | Some kw \<Rightarrow>
          (case kw ''metric_name_suffix'' of
             None \<Rightarrow> Inr ''''
           | Some (VStr s) \<Rightarrow> Inr s
           | Some _ \<Rightarrow> Inl (TypeError ''can only concatenate str to str'')))"

text \<open>
  One turn of the loop over \<open>dir(cls)\<close>. The state is the variable \<open>metric_name\<close>, which a
  method's own \<open>metric_name\<close> attribute overwrites for the turns that follow, and the
  registry.
\<close>

definition base_register_attribute ::
  "('r \<Rightarrow> registration \<Rightarrow> error + 'r) \<Rightarrow> ('r \<Rightarrow> renderer_registration \<Rightarrow> error + 'r)
     \<Rightarrow> provider_class \<Rightarrow> metric_method \<Rightarrow> string option \<times> 'r \<Rightarrow> error + (string option \<times> 'r)" where
  "base_register_attribute register_metric register_renderer cls attr_obj st =
     (case st of (cur_name, r) \<Rightarrow>
        (case m_metric_engine attr_obj of
           None \<Rightarrow>
             (case m_renderer_type attr_obj of
                None \<Rightarrow> Inr (cur_name, r)
              | Some t \<Rightarrow>
                  (case register_renderer r
                          \<lparr>ren_object_name = cur_name, ren_parent_class = class_name cls,
                           ren_renderer_fn = attr_name attr_obj\<rparr> of
                     Inl e \<Rightarrow> Inl e
                   | Inr r' \<Rightarrow> Inr (cur_name, r')))
         | Some engine \<Rightarrow>
             if \<not> issubclass_ExecutionEngine engine
             then Inl (ValueError ''metric functions must be defined with an Execution Engine'')
             else
               (case (case m_metric_name attr_obj of Some n \<Rightarrow> Some n | None \<Rightarrow> cur_name) of
                  None \<Rightarrow> Inr (None, r)
                | Some name \<Rightarrow>
                    (case metric_name_suffix attr_obj of
                       Inl e \<Rightarrow> Inl e
                     | Inr suffix \<Rightarrow>
                         (let declared_metric_name = name @ suffix;
                              metric_fn_type =
                                (case m_metric_fn_type attr_obj of
                                   Some t \<Rightarrow> t
                                 | None \<Rightarrow>
                                     (case cls_metric_fn_type cls of
                                        Some t \<Rightarrow> t
                                      | None \<Rightarrow> Plain (VStr ''value'')));
                              metric_fn = Method (attr_name attr_obj)
                          in
                          if eq_str metric_fn_type ''value''
                          then (case register_all register_metric
                                       [reg cls engine declared_metric_name (domain_keys cls)
                                          (value_keys cls) metric_fn metric_fn_type] r of
                                  Inl e \<Rightarrow> Inl e
                                | Inr r' \<Rightarrow> Inr (Some name, r'))
                          else (case enum_value metric_fn_type of
                                  Inl e \<Rightarrow> Inl e
                                | Inr v \<Rightarrow>
                                    (case register_all register_metric
                                            [reg cls engine (declared_metric_name @ ''.'' @ v)
                                               (domain_keys cls) (value_keys cls) metric_fn metric_fn_type,
                                             reg cls engine declared_metric_name
                                               (domain_keys cls) (value_keys cls) NoProvider metric_fn_type] r of
                                       Inl e \<Rightarrow> Inl e
                                     | Inr r' \<Rightarrow> Inr (Some name, r'))))))))"

fun base_register_loop ::
  "('r \<Rightarrow> registration \<Rightarrow> error + 'r) \<Rightarrow> ('r \<Rightarrow> renderer_registration \<Rightarrow> error + 'r)
     \<Rightarrow> provider_class \<Rightarrow> metric_method list \<Rightarrow> string option \<times> 'r \<Rightarrow> error + (string option \<times> 'r)" where
  "base_register_loop register_metric register_renderer cls [] st = Inr st"
| "base_register_loop register_metric register_renderer cls (m # ms) st =
     (case base_register_attribute register_metric register_renderer cls m st of
        Inl e \<Rightarrow> Inl e
      | Inr st' \<Rightarrow> base_register_loop register_metric register_renderer cls ms st')"

definition MetricProvider_register_metric_functions ::
  "('r \<Rightarrow> registration \<Rightarrow> error + 'r) \<Rightarrow> ('r \<Rightarrow> renderer_registration \<Rightarrow> error + 'r)
     \<Rightarrow> provider_class \<Rightarrow> 'r \<Rightarrow> error + 'r" where
  "MetricProvider_register_metric_functions register_metric register_renderer cls r =
     (case base_register_loop register_metric register_renderer cls (attributes cls)
             (cls_metric_name cls, r) of
        Inl e \<Rightarrow> Inl e
      | Inr st \<Rightarrow> Inr (snd st))"

subsection \<open>Example classes\<close>

text \<open>
  A method as \<open>metric_partial_fn(engine, partial_fn_type, domain_type)\<close> tags it, and a
  method whose \<open>metric_fn_type\<close> attribute is the plain string.
\<close>

definition partial_method :: "string \<Rightarrow> engine_class \<Rightarrow> MetricPartialFunctionTypes \<Rightarrow> MetricDomainTypes \<Rightarrow> metric_method" where
  "partial_method a engine t d =
     \<lparr>attr_name = a, m_metric_engine = Some engine, m_metric_fn_type = Some (PartialType t),
      m_domain_type = Some (DomainType d), m_metric_definition_kwargs = Some Map.empty,
      m_metric_name = None, m_renderer_type = None\<rparr>"





definition aggregate_class :: provider_class where
  "aggregate_class =
     \<lparr>class_name = ''ColumnSum'', cls_metric_name = Some ''column.aggregate.sum'',
      domain_keys = [''batch_id'', ''table'', ''column''], value_keys = [],
      cls_metric_fn_type = Some (Plain (VStr ''value'')),
      function_metric_name = None, condition_metric_name = None,
      condition_domain_keys = [], function_domain_keys = [],
      condition_value_keys = [], function_value_keys = [],
      attributes = [partial_method ''_pandas'' PandasExecutionEngine AGGREGATE_FN COLUMN]\<rparr>"

definition aggregate_registry :: "registration list" where
  "aggregate_registry =
     [reg aggregate_class PandasExecutionEngine ''column.aggregate.sum.aggregate_fn''
        [''batch_id'', ''table'', ''column''] [] (Method ''_pandas'') (PartialType AGGREGATE_FN),
      reg aggregate_class PandasExecutionEngine ''column.aggregate.sum''
        [''batch_id'', ''table'', ''column''] [] NoProvider (PartialType AGGREGATE_FN)]"

definition sum_metric :: MetricConfiguration where
  "sum_metric =
     \<lparr>metric_name = ''column.aggregate.sum'',
      metric_domain_kwargs = [''column'' \<mapsto> VStr ''a''],
      metric_value_kwargs = Map.empty\<rparr>"

section \<open>The in-memory backend\<close>

subsection \<open>Sequencing of calls that may raise\<close>

definition and_then :: "'e + 'a \<Rightarrow> ('a \<Rightarrow> 'e + 'b) \<Rightarrow> 'e + 'b" where
  "and_then x f = (case x of Inl e \<Rightarrow> Inl e | Inr v \<Rightarrow> f v)"

subsection \<open>Python expressions on values\<close>

text \<open>\<open>if v:\<close> tests the truth value of \<open>v\<close>.\<close>

fun truthy :: "pyval \<Rightarrow> bool" where
  "truthy VNone = False"
| "truthy (VBool b) = b"
| "truthy (VInt n) = (n \<noteq> 0)"
| "truthy (VStr s) = (s \<noteq> [])"
| "truthy (VTuple vs) = (vs \<noteq> [])"
| "truthy (VList vs) = (vs \<noteq> [])"
| "truthy (VDict kvs) = (kvs \<noteq> [])"

text \<open>\<open>kwargs[k]\<close> on keyword arguments, and \<open>v[k]\<close> with a string key on a value.\<close>

definition kwargs_getitem :: "kwargs \<Rightarrow> string \<Rightarrow> error + pyval" where
  "kwargs_getitem kw k = (case kw k of None \<Rightarrow> Inl (KeyError (VStr k)) | Some v \<Rightarrow> Inr v)"

fun py_getitem :: "pyval \<Rightarrow> string \<Rightarrow> error + pyval" where
  "py_getitem (VDict kvs) k =
     (case map_of kvs k of None \<Rightarrow> Inl (KeyError (VStr k)) | Some v \<Rightarrow> Inr v)"
| "py_getitem v k = Inl (TypeError ''a string key on a value that is not a dictionary'')"

text \<open>
  \<open>xs[:stop]\<close> by position: a negative stop counts from the end, \<open>None\<close> keeps
  everything, a boolean is the integer 0 or 1, anything else is not an index.
\<close>

definition slice_to :: "int \<Rightarrow> 'a list \<Rightarrow> 'a list" where
  "slice_to n xs = (if 0 \<le> n then take (nat n) xs else take (length xs - nat (- n)) xs)"

fun py_slice_stop :: "pyval \<Rightarrow> 'a list \<Rightarrow> error + 'a list" where
  "py_slice_stop VNone xs = Inr xs"
| "py_slice_stop (VInt n) xs = Inr (slice_to n xs)"
| "py_slice_stop (VBool b) xs = Inr (slice_to (if b then 1 else 0) xs)"
| "py_slice_stop v xs = Inl (TypeError ''slice indices must be integers or None'')"

subsection \<open>Series and data frames\<close>

text \<open>
  A Series is the list of its entries, each an index label and a value, in row order.
  A DataFrame has its column labels and its rows; a row is an index label and the cells
  it holds, a cell that is absent being the missing value. Index labels are taken to be
  unique, as those of the default index are.
\<close>

type_synonym 'a series = "(pyval \<times> 'a) list"

record dataframe =
  df_columns :: "pyval list"
  df_rows :: "(pyval \<times> (pyval \<times> pyval) list) list"

definition cell :: "(pyval \<times> pyval) list \<Rightarrow> pyval \<Rightarrow> pyval" where
  "cell cells c = (case map_of cells c of None \<Rightarrow> VNone | Some v \<Rightarrow> v)"

text \<open>\<open>df[c]\<close> for a column label \<open>c\<close>.\<close>

definition df_column :: "dataframe \<Rightarrow> pyval \<Rightarrow> error + pyval series" where
  "df_column df c =
     (if c \<in> set (df_columns df)
      then Inr (map (\<lambda>(i, cells). (i, cell cells c)) (df_rows df))
      else Inl (KeyError c))"

definition notnull :: "pyval series \<Rightarrow> bool series" where
  "notnull s = map (\<lambda>(i, v). (i, v \<noteq> VNone)) s"


text \<open>
  A boolean Series used as an indexer. When its index is that of the indexed object it
  is used by position. Otherwise it is reindexed to the object's index: that fails on
  a duplicate label of its own and on a label of the object that it lacks.
\<close>

definition bool_indexer :: "pyval list \<Rightarrow> bool series \<Rightarrow> error + bool list" where
  "bool_indexer index key =
     (if map fst key = index then Inr (map snd key)
      else if \<not> distinct (map fst key)
        then Inl (ValueError ''cannot reindex on an axis with duplicate labels'')
      else if list_all (\<lambda>i. map_of key i \<noteq> None) index
        then Inr (map (\<lambda>i. map_of key i = Some True) index)
      else Inl (IndexingError ''Unalignable boolean Series provided as indexer''))"

definition keep :: "'a list \<Rightarrow> bool list \<Rightarrow> 'a list" where
  "keep xs bs = map fst (filter snd (zip xs bs))"

text \<open>\<open>s[key]\<close> and \<open>df[key]\<close> for a boolean Series \<open>key\<close>.\<close>

definition series_mask :: "'a series \<Rightarrow> bool series \<Rightarrow> error + 'a series" where
  "series_mask s key = and_then (bool_indexer (map fst s) key) (\<lambda>bs. Inr (keep s bs))"

definition df_mask :: "dataframe \<Rightarrow> bool series \<Rightarrow> error + dataframe" where
  "df_mask df key =
     and_then (bool_indexer (map fst (df_rows df)) key)
       (\<lambda>bs. Inr (df\<lparr>df_rows := keep (df_rows df) bs\<rparr>))"

text \<open>
  \<open>df[key]\<close> for a key that is a plain value: a list selects those columns, a dictionary
  cannot be a label, any other value is one column label.
\<close>

datatype frame_item = Frame dataframe | Column "pyval series"

definition df_getitem :: "dataframe \<Rightarrow> pyval \<Rightarrow> error + frame_item" where
  "df_getitem df key =
     (case key of
        VList cs \<Rightarrow>
          (if list_all (\<lambda>c. c \<in> set (df_columns df)) cs
           then Inr (Frame \<lparr>df_columns = cs,
                  df_rows = map (\<lambda>(i, cells). (i, map (\<lambda>c. (c, cell cells c)) cs)) (df_rows df)\<rparr>)
           else Inl (KeyError key))
      | VDict kvs \<Rightarrow> Inl (TypeError ''unhashable type'')
      | _ \<Rightarrow> and_then (df_column df key) (\<lambda>s. Inr (Column s)))"

text \<open>\<open>list(s)\<close>: the values of a Series in row order.\<close>

definition series_values :: "'a series \<Rightarrow> 'a list" where
  "series_values s = map snd s"

text \<open>
  The truth value of a Series: pandas raises \<open>ValueError\<close> for every Series, whatever it
  holds. \<open>not v\<close> for a variable that holds \<open>None\<close> or a Series.
\<close>

definition series_bool :: "'a series \<Rightarrow> error + bool" where
  "series_bool s = Inl (ValueError ''The truth value of a Series is ambiguous'')"

definition not_optional_series :: "'a series option \<Rightarrow> error + bool" where
  "not_optional_series v =
     (case v of None \<Rightarrow> Inr True | Some s \<Rightarrow> and_then (series_bool s) (\<lambda>b. Inr (\<not> b)))"

subsection \<open>The execution engine\<close>

text \<open>
  The engine is a collaborator: \<open>get_compute_domain(domain_kwargs, domain_type)\<close> gives
  the data, the compute domain kwargs and the accessor domain kwargs, or raises;
  the domain type is \<open>None\<close> where the caller leaves it out.
  \<open>add_column_row_condition(domain_kwargs)\<close> gives domain kwargs that exclude the rows
  where the column is null.
\<close>

record 'd engine =
  get_compute_domain :: "kwargs \<Rightarrow> string option \<Rightarrow> error + ('d \<times> kwargs \<times> kwargs)"
  add_column_row_condition :: "kwargs \<Rightarrow> error + kwargs"

subsection \<open>The flag filter\_column\_isnull\<close>

text \<open>
  \<open>kwargs.get("filter_column_isnull", getattr(cls, "filter_column_isnull", default))\<close>:
  the keyword argument if it is given, else the attribute of the class if the class
  has one, else the default of the place. \<open>MapMetricProvider\<close> declares the attribute,
  with the value \<open>True\<close>.
\<close>

definition get_filter_column_isnull :: "pyval option \<Rightarrow> pyval option \<Rightarrow> bool \<Rightarrow> pyval" where
  "get_filter_column_isnull kwarg cls_attr dflt =
     (case kwarg of
        Some v \<Rightarrow> v
      | None \<Rightarrow> (case cls_attr of Some v \<Rightarrow> v | None \<Rightarrow> VBool dflt))"

definition MapMetricProvider_filter_column_isnull :: "pyval option" where
  "MapMetricProvider_filter_column_isnull = Some (VBool True)"

text \<open>\<open>if filter_column_isnull: df = df[df[accessor_domain_kwargs["column"]].notnull()]\<close>\<close>

definition filter_nulls :: "pyval \<Rightarrow> dataframe \<Rightarrow> kwargs \<Rightarrow> error + dataframe" where
  "filter_nulls filter_column_isnull df accessor_domain_kwargs =
     (if truthy filter_column_isnull
      then and_then (kwargs_getitem accessor_domain_kwargs ''column'') (\<lambda>c.
           and_then (df_column df c) (\<lambda>s.
           df_mask df (notnull s)))
      else Inr df)"


text \<open>\<open>df[accessor_domain_kwargs["column"]]\<close>\<close>

definition accessor_column :: "dataframe \<Rightarrow> kwargs \<Rightarrow> error + pyval series" where
  "accessor_column df accessor_domain_kwargs =
     and_then (kwargs_getitem accessor_domain_kwargs ''column'') (\<lambda>c. df_column df c)"

subsection \<open>column\_function\_partial and column\_condition\_partial, in-memory engine\<close>



subsection \<open>The derived metrics of the in-memory engine\<close>

text \<open>\<open>result_format["result_format"] == "COMPLETE"\<close>\<close>

definition is_complete :: "pyval \<Rightarrow> error + bool" where
  "is_complete result_format =
     and_then (py_getitem result_format ''result_format'') (\<lambda>v. Inr (v = VStr ''COMPLETE''))"

text \<open>
  \<open>_pandas_column_map_values\<close>. The dependency is the triple that the condition partial
  returns; the data come from the compute domain kwargs of that triple. \<open>kwarg\<close> is the
  keyword argument \<open>filter_column_isnull\<close> of the call.
\<close>

definition pandas_column_map_values ::
  "pyval option \<Rightarrow> pyval option \<Rightarrow> dataframe engine \<Rightarrow> kwargs \<Rightarrow> kwargs
     \<Rightarrow> (string \<rightharpoonup> bool series \<times> kwargs \<times> kwargs) \<Rightarrow> error + pyval list" where
  "pandas_column_map_values kwarg cls_attr execution_engine domain_kwargs
       value_kwargs metrics =
     (case metrics ''unexpected_condition'' of
        None \<Rightarrow> Inl (TypeError ''cannot unpack non-iterable NoneType object'')
      | Some (boolean_map_unexpected_values, compute_domain_kwargs, _) \<Rightarrow>
          and_then (get_compute_domain execution_engine compute_domain_kwargs None)
            (\<lambda>(df, _, accessor_domain_kwargs).
          and_then (filter_nulls (get_filter_column_isnull kwarg cls_attr False) df
                      accessor_domain_kwargs) (\<lambda>df.
          and_then (accessor_column df accessor_domain_kwargs) (\<lambda>data.
          and_then (kwargs_getitem value_kwargs ''result_format'') (\<lambda>result_format.
          and_then (is_complete result_format) (\<lambda>complete.
          if complete
          then and_then (series_mask data boolean_map_unexpected_values) (\<lambda>unexpected.
               Inr (series_values unexpected))
          else and_then (series_mask data boolean_map_unexpected_values) (\<lambda>unexpected.
               and_then (py_getitem result_format ''partial_unexpected_count'') (\<lambda>n.
               and_then (py_slice_stop n unexpected) (\<lambda>first.
               Inr (series_values first))))))))))"

text \<open>
  The two providers below read the dependency as the boolean Series itself. When the
  key is absent the variable holds \<open>None\<close>, \<open>None == True\<close> is \<open>False\<close>, and \<open>False\<close>
  is looked up as a label, which no frame or Series here has.
\<close>

definition df_mask_optional :: "dataframe \<Rightarrow> bool series option \<Rightarrow> error + dataframe" where
  "df_mask_optional df key =
     (case key of
        None \<Rightarrow> Inl (KeyError (VBool False))
      | Some k \<Rightarrow> df_mask df k)"

definition series_mask_optional :: "pyval series \<Rightarrow> bool series option \<Rightarrow> error + pyval series" where
  "series_mask_optional s key =
     (case key of
        None \<Rightarrow> Inl (KeyError (VBool False))
      | Some k \<Rightarrow> series_mask s k)"

text \<open>\<open>_pandas_column_map_rows\<close>\<close>

definition pandas_column_map_rows ::
  "pyval option \<Rightarrow> pyval option \<Rightarrow> dataframe engine \<Rightarrow> kwargs \<Rightarrow> kwargs
     \<Rightarrow> (string \<rightharpoonup> bool series) \<Rightarrow> error + frame_item" where
  "pandas_column_map_rows kwarg cls_attr execution_engine domain_kwargs
       value_kwargs metrics =
     and_then (get_compute_domain execution_engine domain_kwargs None)
       (\<lambda>(df, _, accessor_domain_kwargs).
     and_then (filter_nulls (get_filter_column_isnull kwarg cls_attr False) df
                 accessor_domain_kwargs) (\<lambda>df.
     and_then (kwargs_getitem value_kwargs ''result_format'') (\<lambda>result_format.
     (let boolean_mapped_unexpected_values = metrics ''unexpected_condition'' in
      and_then (is_complete result_format) (\<lambda>complete.
      if complete
      then and_then (df_mask_optional df boolean_mapped_unexpected_values) (\<lambda>rows.
           Inr (Frame rows))
      else and_then (df_mask_optional df boolean_mapped_unexpected_values) (\<lambda>rows.
           and_then (py_getitem result_format ''partial_unexpected_count'') (\<lambda>n.
           df_getitem rows n)))))))"

text \<open>
  \<open>_pandas_column_map_value_counts\<close>. The two pandas operations of the \<open>try\<close> blocks are
  parameters: \<open>value_counts\<close> groups a Series into a Series of counts, \<open>apply_tuple\<close>
  coerces each value to a tuple; either may raise. \<open>except ValueError\<close> catches that
  exception alone. The last line looks the count up as a label of the histogram.
\<close>

definition is_ValueError :: "error \<Rightarrow> bool" where
  "is_ValueError e = (case e of ValueError msg \<Rightarrow> True | _ \<Rightarrow> False)"

definition try_value_counts ::
  "(pyval series \<Rightarrow> error + nat series) \<Rightarrow> (pyval series \<Rightarrow> error + pyval series)
     \<Rightarrow> pyval series \<Rightarrow> bool series option \<Rightarrow> error + nat series option" where
  "try_value_counts value_counts apply_tuple data key =
     (case and_then (series_mask_optional data key) value_counts of
        Inr h \<Rightarrow> Inr (Some h)
      | Inl e \<Rightarrow>
          if is_ValueError e
          then (case and_then (series_mask_optional data key) (\<lambda>u.
                     and_then (apply_tuple u) value_counts) of
                  Inr h \<Rightarrow> Inr (Some h)
                | Inl e' \<Rightarrow> if is_ValueError e' then Inr None else Inl e')
          else Inl e)"

definition histogram_getitem :: "nat series \<Rightarrow> pyval \<Rightarrow> error + nat" where
  "histogram_getitem h key =
     (case map_of h key of None \<Rightarrow> Inl (KeyError key) | Some n \<Rightarrow> Inr n)"

datatype counts_result = Histogram "nat series" | Count nat

definition pandas_column_map_value_counts ::
  "(pyval series \<Rightarrow> error + nat series) \<Rightarrow> (pyval series \<Rightarrow> error + pyval series)
     \<Rightarrow> pyval option \<Rightarrow> pyval option \<Rightarrow> dataframe engine \<Rightarrow> kwargs \<Rightarrow> kwargs
     \<Rightarrow> (string \<rightharpoonup> bool series) \<Rightarrow> error + counts_result" where
  "pandas_column_map_value_counts value_counts apply_tuple kwarg cls_attr execution_engine
       domain_kwargs value_kwargs metrics =
     and_then (get_compute_domain execution_engine domain_kwargs None)
       (\<lambda>(df, _, accessor_domain_kwargs).
     and_then (filter_nulls (get_filter_column_isnull kwarg cls_attr False) df
                 accessor_domain_kwargs) (\<lambda>df.
     and_then (accessor_column df accessor_domain_kwargs) (\<lambda>data.
     and_then (kwargs_getitem value_kwargs ''result_format'') (\<lambda>result_format.
     (let boolean_mapped_unexpected_values = metrics ''unexpected_condition'' in
      and_then (try_value_counts value_counts apply_tuple data boolean_mapped_unexpected_values)
        (\<lambda>value_counts_var.
      and_then (not_optional_series value_counts_var) (\<lambda>empty.
      if empty then Inl (MetricError ''Unable to compute value counts'')
      else (case value_counts_var of
              None \<Rightarrow> Inl (MetricError ''Unable to compute value counts'')
            | Some h \<Rightarrow>
                and_then (is_complete result_format) (\<lambda>complete.
                if complete then Inr (Histogram h)
                else and_then (py_getitem result_format ''partial_unexpected_count'') (\<lambda>n.
                     and_then (histogram_getitem h n) (\<lambda>c. Inr (Count c))))))))))))"

subsection \<open>Example data\<close>

text \<open>
  The column \<open>[1, None, 3]\<close> under the label \<open>a\<close>, an engine whose compute domain is a
  given frame with the accessor column \<open>a\<close>, the author's condition "value > 2" and
  an author's function that returns the column it is given.
\<close>

definition frame_of :: "pyval list \<Rightarrow> dataframe" where
  "frame_of vs =
     \<lparr>df_columns = [VStr ''a''],
      df_rows = map (\<lambda>(i, v). (VInt (int i), [(VStr ''a'', v)])) (enumerate 0 vs)\<rparr>"


definition frame_engine :: "dataframe \<Rightarrow> dataframe engine" where
  "frame_engine df =
     \<lparr>get_compute_domain = (\<lambda>kw t. Inr (df, kw, [''column'' \<mapsto> VStr ''a''])),
      add_column_row_condition = (\<lambda>kw. Inr kw)\<rparr>"



definition column_a :: kwargs where
  "column_a = [''column'' \<mapsto> VStr ''a'']"

text \<open>Ten rows on all of which the condition is true, and the two result formats.\<close>

definition ten_frame :: dataframe where
  "ten_frame = frame_of (map VInt [10, 11, 12, 13, 14, 15, 16, 17, 18, 19])"

definition all_true :: "dataframe \<Rightarrow> bool series" where
  "all_true df = map (\<lambda>(i, cells). (i, True)) (df_rows df)"

definition basic_format :: "int \<Rightarrow> kwargs" where
  "basic_format n =
     [''result_format'' \<mapsto>
        VDict [(''result_format'', VStr ''BASIC''), (''partial_unexpected_count'', VInt n)]]"

definition complete_format :: kwargs where
  "complete_format = [''result_format'' \<mapsto> VDict [(''result_format'', VStr ''COMPLETE'')]]"

text \<open>The column \<open>[1, 1, 2]\<close> and the histogram that grouping it gives.\<close>

definition counts_frame :: dataframe where
  "counts_frame = frame_of [VInt 1, VInt 1, VInt 2]"

definition counts_of_example :: "pyval series \<Rightarrow> error + nat series" where
  "counts_of_example s = Inr [(VInt 1, 2), (VInt 2, 1)]"

definition no_tuples :: "pyval series \<Rightarrow> error + pyval series" where
  "no_tuples s = Inl (TypeError ''int object is not iterable'')"

section \<open>The SQL backend\<close>

text \<open>
  A query as the providers build it: the selected items, the selectable, the condition
  of \<open>where\<close>, the column of \<open>group_by\<close> and the argument of \<open>limit\<close>, the last two
  \<open>None\<close> when the method is not called. The selectable and the condition are the
  engine's own objects.
\<close>

datatype sa_item = Labelled pyval string | Star | PlainColumn pyval | CountOf pyval

record ('sel, 'cond) sa_select =
  sel_items :: "sa_item list"
  sel_from :: 'sel
  sel_where :: 'cond
  sel_group_by :: "pyval option"
  sel_limit :: "pyval option"

type_synonym sa_row = "(string \<times> pyval) list"

text \<open>The SQL engine adds \<open>engine.execute(query).fetchall()\<close> to the engine.\<close>

record ('sel, 'cond) sql_engine = "'sel engine" +
  sa_execute :: "('sel, 'cond) sa_select \<Rightarrow> error + sa_row list"

text \<open>\<open>d.get(k)\<close>, the attribute \<open>row.name\<close>, and a comprehension whose element may raise.\<close>

definition kwargs_get :: "kwargs \<Rightarrow> string \<Rightarrow> pyval" where
  "kwargs_get kw k = (case kw k of None \<Rightarrow> VNone | Some v \<Rightarrow> v)"

definition row_attr :: "sa_row \<Rightarrow> string \<Rightarrow> error + pyval" where
  "row_attr row name = (case map_of row name of None \<Rightarrow> Inl (AttributeError name) | Some v \<Rightarrow> Inr v)"

fun collect_all :: "('a \<Rightarrow> error + 'b) \<Rightarrow> 'a list \<Rightarrow> error + 'b list" where
  "collect_all f [] = Inr []"
| "collect_all f (x # xs) =
     (case f x of
        Inl e \<Rightarrow> Inl e
      | Inr y \<Rightarrow> (case collect_all f xs of Inl e \<Rightarrow> Inl e | Inr ys \<Rightarrow> Inr (y # ys)))"

definition domain_assertion :: error where
  "domain_assertion = AssertionError ''compute domain should be equivalent to the function domain''"

text \<open>
  \<open>if result_format["result_format"] != "COMPLETE": query = query.limit(...)\<close>
\<close>

definition limit_unless_complete ::
  "pyval \<Rightarrow> ('sel, 'cond) sa_select \<Rightarrow> error + ('sel, 'cond) sa_select" where
  "limit_unless_complete result_format query =
     and_then (is_complete result_format) (\<lambda>complete.
     if \<not> complete
     then and_then (py_getitem result_format ''partial_unexpected_count'') (\<lambda>n.
          Inr (query\<lparr>sel_limit := Some n\<rparr>))
     else Inr query)"

text \<open>\<open>_sqlalchemy_column_map_values\<close>\<close>

definition sqlalchemy_column_map_values ::
  "('sel, 'cond) sql_engine \<Rightarrow> kwargs \<Rightarrow> kwargs \<Rightarrow> (string \<rightharpoonup> 'cond \<times> kwargs)
     \<Rightarrow> error + pyval list" where
  "sqlalchemy_column_map_values execution_engine domain_kwargs value_kwargs metrics =
     and_then (get_compute_domain execution_engine domain_kwargs None)
       (\<lambda>(selectable, compute_domain_kwargs, accessor_domain_kwargs).
     and_then (kwargs_getitem value_kwargs ''result_format'') (\<lambda>result_format.
     (case metrics ''unexpected_condition'' of
        None \<Rightarrow> Inl (TypeError ''cannot unpack non-iterable NoneType object'')
      | Some (unexpected_condition, fn_domain_kwargs) \<Rightarrow>
          if fn_domain_kwargs \<noteq> compute_domain_kwargs then Inl domain_assertion
          else
            and_then (limit_unless_complete result_format
                        \<lparr>sel_items = [Labelled (kwargs_get accessor_domain_kwargs ''column'')
                                        ''unexpected_values''],
                         sel_from = selectable, sel_where = unexpected_condition,
                         sel_group_by = None, sel_limit = None\<rparr>) (\<lambda>query.
            and_then (sa_execute execution_engine query) (\<lambda>rows.
            collect_all (\<lambda>val. row_attr val ''unexpected_values'') rows)))))"

text \<open>\<open>_sqlalchemy_column_map_value_counts\<close>\<close>

definition sqlalchemy_column_map_value_counts ::
  "('sel, 'cond) sql_engine \<Rightarrow> kwargs \<Rightarrow> kwargs \<Rightarrow> (string \<rightharpoonup> 'cond \<times> kwargs)
     \<Rightarrow> error + sa_row list" where
  "sqlalchemy_column_map_value_counts execution_engine domain_kwargs value_kwargs metrics =
     and_then (get_compute_domain execution_engine domain_kwargs None)
       (\<lambda>(selectable, compute_domain_kwargs, accessor_domain_kwargs).
     (case metrics ''unexpected_condition'' of
        None \<Rightarrow> Inl (TypeError ''cannot unpack non-iterable NoneType object'')
      | Some (unexpected_condition, fn_domain_kwargs) \<Rightarrow>
          if fn_domain_kwargs \<noteq> compute_domain_kwargs then Inl domain_assertion
          else
            and_then (kwargs_getitem accessor_domain_kwargs ''column'') (\<lambda>column.
            sa_execute execution_engine
              \<lparr>sel_items = [PlainColumn column, CountOf column],
               sel_from = selectable, sel_where = unexpected_condition,
               sel_group_by = Some column, sel_limit = None\<rparr>)))"

text \<open>\<open>_sqlalchemy_column_map_rows\<close>\<close>

definition sqlalchemy_column_map_rows ::
  "('sel, 'cond) sql_engine \<Rightarrow> kwargs \<Rightarrow> kwargs \<Rightarrow> (string \<rightharpoonup> 'cond \<times> kwargs)
     \<Rightarrow> error + sa_row list" where
  "sqlalchemy_column_map_rows execution_engine domain_kwargs value_kwargs metrics =
     and_then (get_compute_domain execution_engine domain_kwargs None)
       (\<lambda>(selectable, compute_domain_kwargs, accessor_domain_kwargs).
     and_then (kwargs_getitem value_kwargs ''result_format'') (\<lambda>result_format.
     (case metrics ''unexpected_condition'' of
        None \<Rightarrow> Inl (TypeError ''cannot unpack non-iterable NoneType object'')
      | Some (unexpected_condition, fn_domain_kwargs) \<Rightarrow>
          if fn_domain_kwargs \<noteq> compute_domain_kwargs then Inl domain_assertion
          else
            and_then (limit_unless_complete result_format
                        \<lparr>sel_items = [Star],
                         sel_from = selectable, sel_where = unexpected_condition,
                         sel_group_by = None, sel_limit = None\<rparr>) (\<lambda>query.
            sa_execute execution_engine query))))"

section \<open>The distributed backend\<close>

text \<open>
  A distributed frame is its column names and its rows, each row a dictionary from
  column name to value; a column expression, such as the condition, gives a value for
  each row.
\<close>

type_synonym spark_row = "(string \<times> pyval) list"

record spark_frame =
  sp_columns :: "string list"
  sp_rows :: "spark_row list"

type_synonym spark_column = "spark_row \<Rightarrow> pyval"

text \<open>\<open>data.withColumn(name, col)\<close>: the column is replaced if the frame has it, else added.\<close>

definition withColumn :: "spark_frame \<Rightarrow> string \<Rightarrow> spark_column \<Rightarrow> spark_frame" where
  "withColumn data name col =
     \<lparr>sp_columns = (if name \<in> set (sp_columns data) then sp_columns data
                    else sp_columns data @ [name]),
      sp_rows = map (\<lambda>row. dict_setitem row name (col row)) (sp_rows data)\<rparr>"

text \<open>\<open>data.filter(F.col(name) == True)\<close>: the rows where the column is true, not null.\<close>

definition filter_true :: "spark_frame \<Rightarrow> string \<Rightarrow> error + spark_frame" where
  "filter_true data name =
     (if name \<in> set (sp_columns data)
      then Inr (data\<lparr>sp_rows := filter (\<lambda>row. map_of row name = Some (VBool True)) (sp_rows data)\<rparr>)
      else Inl (AnalysisException ''cannot resolve column''))"

text \<open>\<open>data.drop(F.col(name))\<close>\<close>

definition drop_column :: "spark_frame \<Rightarrow> string \<Rightarrow> spark_frame" where
  "drop_column data name =
     \<lparr>sp_columns = filter (\<lambda>c. c \<noteq> name) (sp_columns data),
      sp_rows = map (filter (\<lambda>(c, v). c \<noteq> name)) (sp_rows data)\<rparr>"

text \<open>\<open>data.select(F.col(column_name))\<close>: the name must be a string and a column.\<close>

definition select_column :: "spark_frame \<Rightarrow> pyval \<Rightarrow> error + spark_frame" where
  "select_column data column_name =
     (case column_name of
        VStr c \<Rightarrow>
          (if c \<in> set (sp_columns data)
           then Inr \<lparr>sp_columns = [c],
                     sp_rows = map (filter (\<lambda>(c', v). c' = c)) (sp_rows data)\<rparr>
           else Inl (AnalysisException ''cannot resolve column''))
      | _ \<Rightarrow> Inl (TypeError ''col should be a string''))"

text \<open>\<open>data.limit(n)\<close>: the first \<open>n\<close> rows, for an integer that is not negative.\<close>

definition limit_rows :: "spark_frame \<Rightarrow> pyval \<Rightarrow> error + spark_frame" where
  "limit_rows data n =
     (case n of
        VInt k \<Rightarrow>
          (if 0 \<le> k then Inr (data\<lparr>sp_rows := take (nat k) (sp_rows data)\<rparr>)
           else Inl (AnalysisException ''the limit expression must not be negative''))
      | _ \<Rightarrow> Inl (TypeError ''limit expects an integer''))"

text \<open>\<open>row[column_name]\<close>\<close>

definition row_getitem :: "spark_row \<Rightarrow> pyval \<Rightarrow> error + pyval" where
  "row_getitem row column_name =
     (case column_name of
        VStr c \<Rightarrow> (case map_of row c of None \<Rightarrow> Inl (ValueError c) | Some v \<Rightarrow> Inr v)
      | _ \<Rightarrow> Inl (TypeError ''a row is read by a column name''))"

text \<open>
  \<open>data.withColumn("__unexpected", condition)\<close>, then
  \<open>data.filter(F.col("__unexpected") == True).drop(F.col("__unexpected"))\<close>
\<close>

definition unexpected_rows :: "spark_frame \<Rightarrow> spark_column \<Rightarrow> error + spark_frame" where
  "unexpected_rows data condition =
     and_then (filter_true (withColumn data ''__unexpected'' condition) ''__unexpected'') (\<lambda>kept.
     Inr (drop_column kept ''__unexpected''))"

text \<open>\<open>_spark_column_map_values\<close>\<close>

definition spark_column_map_values ::
  "spark_frame engine \<Rightarrow> kwargs \<Rightarrow> kwargs \<Rightarrow> (string \<rightharpoonup> spark_column \<times> kwargs)
     \<Rightarrow> error + pyval list" where
  "spark_column_map_values execution_engine domain_kwargs value_kwargs metrics =
     (case metrics ''unexpected_condition'' of
        None \<Rightarrow> Inl (TypeError ''cannot unpack non-iterable NoneType object'')
      | Some (condition, fn_domain_kwargs) \<Rightarrow>
          and_then (get_compute_domain execution_engine fn_domain_kwargs None) (\<lambda>(data, _, _).
          and_then (kwargs_getitem value_kwargs ''result_format'') (\<lambda>result_format.
          and_then (kwargs_getitem domain_kwargs ''column'') (\<lambda>column_name.
          and_then (unexpected_rows data condition) (\<lambda>filtered.
          and_then (is_complete result_format) (\<lambda>complete.
          and_then
            (if complete
             then and_then (select_column filtered column_name) (\<lambda>selected. Inr (sp_rows selected))
             else and_then (select_column filtered column_name) (\<lambda>selected.
                  and_then (py_getitem result_format ''partial_unexpected_count'') (\<lambda>n.
                  and_then (limit_rows selected n) (\<lambda>limited. Inr (sp_rows limited)))))
            (\<lambda>rows. collect_all (\<lambda>row. row_getitem row column_name) rows)))))))"

text \<open>
  \<open>_spark_column_map_value_counts\<close>. \<open>group_count\<close> is the engine's
  \<open>filtered.groupBy(F.col(column_name)).count()\<close>, collected; the engine chooses the order
  of the groups.
\<close>

definition spark_column_map_value_counts ::
  "(spark_frame \<Rightarrow> pyval \<Rightarrow> error + spark_row list) \<Rightarrow> spark_frame engine \<Rightarrow> kwargs \<Rightarrow> kwargs
     \<Rightarrow> (string \<rightharpoonup> spark_column \<times> kwargs) \<Rightarrow> error + spark_row list" where
  "spark_column_map_value_counts group_count execution_engine domain_kwargs value_kwargs metrics =
     (case metrics ''unexpected_condition'' of
        None \<Rightarrow> Inl (TypeError ''cannot unpack non-iterable NoneType object'')
      | Some (condition, fn_domain_kwargs) \<Rightarrow>
          and_then (get_compute_domain execution_engine fn_domain_kwargs None)
            (\<lambda>(data, _, accessor_domain_kwargs).
          and_then (kwargs_getitem value_kwargs ''result_format'') (\<lambda>result_format.
          and_then (kwargs_getitem accessor_domain_kwargs ''column'') (\<lambda>column_name.
          and_then (unexpected_rows data condition) (\<lambda>filtered.
          and_then (group_count filtered column_name) (\<lambda>value_counts.
          and_then (is_complete result_format) (\<lambda>complete.
          if complete then Inr value_counts
          else and_then (py_getitem result_format ''partial_unexpected_count'') (\<lambda>n.
               py_slice_stop n value_counts))))))))"

text \<open>\<open>_spark_column_map_rows\<close>\<close>

definition spark_column_map_rows ::
  "spark_frame engine \<Rightarrow> kwargs \<Rightarrow> kwargs \<Rightarrow> (string \<rightharpoonup> spark_column \<times> kwargs)
     \<Rightarrow> error + spark_row list" where
  "spark_column_map_rows execution_engine domain_kwargs value_kwargs metrics =
     (case metrics ''unexpected_condition'' of
        None \<Rightarrow> Inl (TypeError ''cannot unpack non-iterable NoneType object'')
      | Some (condition, fn_domain_kwargs) \<Rightarrow>
          and_then (get_compute_domain execution_engine fn_domain_kwargs None) (\<lambda>(data, _, _).
          and_then (kwargs_getitem value_kwargs ''result_format'') (\<lambda>result_format.
          and_then (unexpected_rows data condition) (\<lambda>filtered.
          and_then (is_complete result_format) (\<lambda>complete.
          if complete then Inr (sp_rows filtered)
          else and_then (py_getitem result_format ''partial_unexpected_count'') (\<lambda>n.
               and_then (limit_rows filtered n) (\<lambda>limited. Inr (sp_rows limited))))))))"

subsection \<open>Example engines\<close>

text \<open>
  The domain kwargs of a condition that was evaluated with a row filter, an SQL engine
  that hands the domain kwargs back as compute domain kwargs, and a distributed engine
  over the column \<open>[1, None, 3]\<close> that applies the row filter when the kwargs name one.
  The condition marks a value as unexpected when it is not greater than 2.
\<close>

definition filtered_domain :: kwargs where
  "filtered_domain = column_a(''row_condition'' \<mapsto> VStr ''a IS NOT NULL'')"

definition echo_sql_engine :: "(unit, unit) sql_engine" where
  "echo_sql_engine =
     \<lparr>get_compute_domain = (\<lambda>kw t. Inr ((), kw, [''column'' \<mapsto> VStr ''a''])),
      add_column_row_condition = (\<lambda>kw. Inr kw),
      sa_execute = (\<lambda>q. Inr [])\<rparr>"

definition spark_of :: "pyval list \<Rightarrow> spark_frame" where
  "spark_of vs = \<lparr>sp_columns = [''a''], sp_rows = map (\<lambda>v. [(''a'', v)]) vs\<rparr>"

definition row_filter_engine :: "spark_frame engine" where
  "row_filter_engine =
     \<lparr>get_compute_domain =
        (\<lambda>kw t. Inr (if kw ''row_condition'' = None then spark_of [VInt 1, VNone, VInt 3]
                       else spark_of [VInt 1, VInt 3],
                      kw, [''column'' \<mapsto> VStr ''a''])),
      add_column_row_condition = (\<lambda>kw. Inr (kw(''row_condition'' \<mapsto> VStr ''a IS NOT NULL'')))\<rparr>"

definition not_greater_than_2 :: spark_column where
  "not_greater_than_2 row =
     (case map_of row ''a'' of Some (VInt n) \<Rightarrow> VBool (\<not> 2 < n) | _ \<Rightarrow> VNone)"

section \<open>The execution environment and its configuration\<close>

subsection \<open>Objects with identity\<close>

text \<open>
  The configuration is a dictionary that holds further dictionaries and lists, which the
  holder of a reference can change in place. Such objects live in a store: the heap is
  the list of the objects allocated so far, and the address of an object is its
  position. A value is an immutable atom or a reference to an object.
\<close>

datatype atom = ANone | ABool bool | AInt int | AStr string

datatype val = Atom atom | Ref nat

datatype obj = DictObj "(string \<times> val) list" | ListObj "val list"

type_synonym heap = "obj list"

fun children :: "obj \<Rightarrow> val list" where
  "children (DictObj kvs) = map snd kvs"
| "children (ListObj vs) = vs"

text \<open>An object of the same kind with no entries, and one with the children replaced.\<close>

fun empty_like :: "obj \<Rightarrow> obj" where
  "empty_like (DictObj kvs) = DictObj []"
| "empty_like (ListObj vs) = ListObj []"

fun rebuild :: "obj \<Rightarrow> val list \<Rightarrow> obj" where
  "rebuild (DictObj kvs) vs = DictObj (zip (map fst kvs) vs)"
| "rebuild (ListObj us) vs = ListObj vs"

text \<open>A heap is well formed when every reference in it is an address of the heap.\<close>

definition is_address :: "heap \<Rightarrow> val \<Rightarrow> bool" where
  "is_address h v = (case v of Atom a \<Rightarrow> True | Ref x \<Rightarrow> x < length h)"

definition wf_heap :: "heap \<Rightarrow> bool" where
  "wf_heap h = list_all (\<lambda>ob. list_all (is_address h) (children ob)) h"

text \<open>The addresses that a value reaches.\<close>

inductive_set reach :: "heap \<Rightarrow> val \<Rightarrow> nat set" for h :: heap and v :: val where
  root: "v = Ref a \<Longrightarrow> a < length h \<Longrightarrow> a \<in> reach h v"
| step: "a \<in> reach h v \<Longrightarrow> Ref b \<in> set (children (h ! a)) \<Longrightarrow> b < length h \<Longrightarrow> b \<in> reach h v"

text \<open>
  What a value holds, read to a given depth: the content of the configuration as a
  reader sees it, without the addresses.
\<close>

datatype content =
    CAtom atom
  | CDict "(string \<times> content) list"
  | CList "content list"
  | CDeeper
  | CDangling

fun content_of :: "obj \<Rightarrow> content list \<Rightarrow> content" where
  "content_of (DictObj kvs) cs = CDict (zip (map fst kvs) cs)"
| "content_of (ListObj us) cs = CList cs"

fun read_val :: "nat \<Rightarrow> heap \<Rightarrow> val \<Rightarrow> content" where
  "read_val k h (Atom a) = CAtom a"
| "read_val 0 h (Ref x) = CDeeper"
| "read_val (Suc k) h (Ref x) =
     (if x < length h then content_of (h ! x) (map (read_val k h) (children (h ! x)))
      else CDangling)"

subsection \<open>copy.deepcopy\<close>

text \<open>
  \<open>copy.deepcopy(x, memo)\<close>: an atom is returned as it is; an object that the memo knows
  gives the copy recorded there; any other object gets a new, empty object of its kind,
  which is recorded in the memo and then filled with the copies of the children, in
  order. The first argument bounds the depth of the recursion, which Python bounds too:
  \<open>None\<close> is the \<open>RecursionError\<close> of a structure nested deeper than that.
\<close>

type_synonym memo = "nat \<rightharpoonup> nat"

fun deepcopy :: "nat \<Rightarrow> heap \<Rightarrow> memo \<Rightarrow> val \<Rightarrow> (heap \<times> memo \<times> val) option"
  and deepcopy_list :: "nat \<Rightarrow> heap \<Rightarrow> memo \<Rightarrow> val list \<Rightarrow> (heap \<times> memo \<times> val list) option"
  where
  "deepcopy n h m (Atom a) = Some (h, m, Atom a)"
| "deepcopy 0 h m (Ref x) = None"
| "deepcopy (Suc n) h m (Ref x) =
     (case m x of
        Some y \<Rightarrow> Some (h, m, Ref y)
      | None \<Rightarrow>
          if x < length h
          then (case deepcopy_list n (h @ [empty_like (h ! x)]) (m(x \<mapsto> length h))
                       (children (h ! x)) of
                  None \<Rightarrow> None
                | Some (h', m', vs) \<Rightarrow> Some (h'[length h := rebuild (h ! x) vs], m', Ref (length h)))
          else None)"
| "deepcopy_list n h m [] = Some (h, m, [])"
| "deepcopy_list n h m (v # vs) =
     (case deepcopy n h m v of
        None \<Rightarrow> None
      | Some (h1, m1, v') \<Rightarrow>
          (case deepcopy_list n h1 m1 vs of
             None \<Rightarrow> None
           | Some (h2, m2, vs') \<Rightarrow> Some (h2, m2, v' # vs')))"

subsection \<open>BaseExecutionEnvironment (execution\_environment.py)\<close>

text \<open>
  The environment keeps a reference to its configuration. \<open>__init__\<close> allocates the
  dictionary \<open>{"execution_engine": execution_engine}\<close>, whose value is the caller's
  object; the engine that it instantiates from the configuration is not modelled.
  The property \<open>config\<close> returns \<open>copy.deepcopy(self._execution_environment_config)\<close>:
  the heap after the call and the value returned.
\<close>

record BaseExecutionEnvironment =
  env_name :: string
  execution_environment_config :: nat

definition BaseExecutionEnvironment_init ::
  "heap \<Rightarrow> string \<Rightarrow> val \<Rightarrow> heap \<times> BaseExecutionEnvironment" where
  "BaseExecutionEnvironment_init h name execution_engine =
     (h @ [DictObj [(''execution_engine'', execution_engine)]],
      \<lparr>env_name = name, execution_environment_config = length h\<rparr>)"

definition config :: "nat \<Rightarrow> heap \<Rightarrow> BaseExecutionEnvironment \<Rightarrow> (heap \<times> val) option" where
  "config depth h self =
     map_option (\<lambda>(h', m', v'). (h', v'))
       (deepcopy depth h Map.empty (Ref (execution_environment_config self)))"

text \<open>A mutation of an object: the object at an address is replaced.\<close>

definition mutate :: "heap \<Rightarrow> nat \<Rightarrow> obj \<Rightarrow> heap" where
  "mutate h a ob = h[a := ob]"

subsection \<open>An example environment\<close>

text \<open>
  The caller's configuration \<open>{"class_name": "PandasExecutionEngine", "caching": [True]}\<close>
  and the environment made from it.
\<close>

definition caller_heap :: heap where
  "caller_heap =
     [ListObj [Atom (ABool True)],
      DictObj [(''class_name'', Atom (AStr ''PandasExecutionEngine'')), (''caching'', Ref 0)]]"

definition example_env_heap :: heap where
  "example_env_heap = fst (BaseExecutionEnvironment_init caller_heap ''my_env'' (Ref 1))"

definition example_env :: BaseExecutionEnvironment where
  "example_env = snd (BaseExecutionEnvironment_init caller_heap ''my_env'' (Ref 1))"

text \<open>The heap after \<open>config\<close> on the example: the three objects of the copy follow.\<close>

definition copied_heap :: heap where
  "copied_heap = example_env_heap @
     [DictObj [(''execution_engine'', Ref 4)],
      DictObj [(''class_name'', Atom (AStr ''PandasExecutionEngine'')), (''caching'', Ref 5)],
      ListObj [Atom (ABool True)]]"

subsection \<open>The invariant of a copy in progress\<close>

text \<open>
  \<open>ren m v\<close> is \<open>v\<close> with its address replaced by the copy that the memo records, and
  \<open>known m v\<close> says that the memo records one. During a copy of the heap \<open>h0\<close> the
  current heap extends \<open>h0\<close>; the memo maps addresses of \<open>h0\<close> one-to-one onto the new
  addresses; a copy in the set \<open>P\<close> is still empty; every other copy has the entries of
  its original, with the children replaced by their copies.
\<close>

definition ren :: "memo \<Rightarrow> val \<Rightarrow> val" where
  "ren m v = (case v of Atom a \<Rightarrow> Atom a | Ref x \<Rightarrow> (case m x of None \<Rightarrow> Ref x | Some y \<Rightarrow> Ref y))"

definition known :: "memo \<Rightarrow> val \<Rightarrow> bool" where
  "known m v = (case v of Atom a \<Rightarrow> True | Ref x \<Rightarrow> m x \<noteq> None)"

definition copy_inv :: "heap \<Rightarrow> nat set \<Rightarrow> heap \<Rightarrow> memo \<Rightarrow> bool" where
  "copy_inv h0 P h m \<longleftrightarrow>
     length h0 \<le> length h \<and> take (length h0) h = h0
   \<and> P \<subseteq> dom m
   \<and> (\<forall>x y. m x = Some y \<longrightarrow> x < length h0 \<and> length h0 \<le> y \<and> y < length h)
   \<and> (\<forall>x x' y. m x = Some y \<longrightarrow> m x' = Some y \<longrightarrow> x = x')
   \<and> (\<forall>y. length h0 \<le> y \<longrightarrow> y < length h \<longrightarrow> (\<exists>x. m x = Some y))
   \<and> (\<forall>x y. m x = Some y \<longrightarrow> x \<in> P \<longrightarrow> h ! y = empty_like (h0 ! x))
   \<and> (\<forall>x y. m x = Some y \<longrightarrow> x \<notin> P \<longrightarrow>
          h ! y = rebuild (h0 ! x) (map (ren m) (children (h0 ! x)))
          \<and> list_all (known m) (children (h0 ! x)))"

section \<open>Properties of the store\<close>

lemma map_of_dict_setitem: "map_of (dict_setitem d k v) = (map_of d)(k \<mapsto> v)"
  by (induction d) auto

lemma keys_dict_setitem: "set (map fst (dict_setitem d k v)) = insert k (set (map fst d))"
  by (induction d) auto

lemma run_sets_lookup:
  "k \<notin> fst ` set calls \<Longrightarrow> map_of (store (run_sets calls s)) k = map_of (store s) k"
proof (induction calls arbitrary: s)
  case Nil
  then show ?case by (simp add: run_sets_def)
next
  case (Cons c calls)
  obtain k' v' where c: "c = (k', v')" by (cases c)
  from Cons.prems c have ne: "k' \<noteq> k" and rest: "k \<notin> fst ` set calls" by auto
  have "run_sets (c # calls) s = run_sets calls (EvaluationParameterStore_set s k' v')"
    by (simp add: run_sets_def c)
  with Cons.IH [OF rest] ne show ?case
    by (simp add: EvaluationParameterStore_set_def map_of_dict_setitem)
qed

text \<open>
  C9. After \<open>set(k, v)\<close>, \<open>get(k)\<close> returns \<open>v\<close>, \<open>has_key(k)\<close> is true and \<open>k\<close> is among
  \<open>list_keys()\<close>; on a store created empty, after any calls of \<open>set\<close> none of which names
  a key \<open>k'\<close>, \<open>get(k')\<close> raises \<open>KeyError\<close> and \<open>has_key(k')\<close> is false.
\<close>

theorem C9_store_set_then_get:
  "EvaluationParameterStore_get (EvaluationParameterStore_set s k v) k = Inr v
   \<and> EvaluationParameterStore_has_key (EvaluationParameterStore_set s k v) k
   \<and> k \<in> set (EvaluationParameterStore_list_keys (EvaluationParameterStore_set s k v))
   \<and> (k' \<notin> fst ` set calls \<longrightarrow>
        EvaluationParameterStore_get (run_sets calls EvaluationParameterStore_init) k' = Inl (KeyError k')
        \<and> \<not> EvaluationParameterStore_has_key (run_sets calls EvaluationParameterStore_init) k')"
proof -
  let ?s' = "EvaluationParameterStore_set s k v"
  have got: "EvaluationParameterStore_get ?s' k = Inr v"
    by (simp add: EvaluationParameterStore_get_def EvaluationParameterStore_set_def
        dict_getitem_def map_of_dict_setitem)
  have has: "EvaluationParameterStore_has_key ?s' k"
    by (simp add: EvaluationParameterStore_has_key_def EvaluationParameterStore_set_def
        dict_contains_def keys_dict_setitem del: set_map)
  have listed: "k \<in> set (EvaluationParameterStore_list_keys ?s')"
    by (simp add: EvaluationParameterStore_list_keys_def EvaluationParameterStore_set_def
        dict_keys_def keys_dict_setitem del: set_map)
  have never: "EvaluationParameterStore_get (run_sets calls EvaluationParameterStore_init) k' = Inl (KeyError k')
      \<and> \<not> EvaluationParameterStore_has_key (run_sets calls EvaluationParameterStore_init) k'"
    if "k' \<notin> fst ` set calls"
  proof -
    have none: "map_of (store (run_sets calls EvaluationParameterStore_init)) k' = None"
      using run_sets_lookup [OF that, of EvaluationParameterStore_init]
      by (simp add: EvaluationParameterStore_init_def)
    then have "k' \<notin> fst ` set (store (run_sets calls EvaluationParameterStore_init))"
      by (simp add: map_of_eq_None_iff)
    with none show ?thesis
      by (simp add: EvaluationParameterStore_get_def EvaluationParameterStore_has_key_def
          dict_getitem_def dict_contains_def)
  qed
  from got has listed never show ?thesis by blast
qed

theorem C9_store_witness:
  "EvaluationParameterStore_get (EvaluationParameterStore_set EvaluationParameterStore_init ''a'' (1::int)) ''a'' = Inr 1
   \<and> ''b'' \<notin> fst ` set [(''a'', 1::int), (''c'', 2)]
   \<and> EvaluationParameterStore_get (run_sets [(''a'', 1::int), (''c'', 2)] EvaluationParameterStore_init) ''b''
       = Inl (KeyError ''b'')
   \<and> \<not> EvaluationParameterStore_has_key (run_sets [(''a'', 1::int), (''c'', 2)] EvaluationParameterStore_init) ''b''"
  using C9_store_set_then_get
    [of EvaluationParameterStore_init "''a''" "1::int" "''b''" "[(''a'', 1::int), (''c'', 2)]"]
  by simp

section \<open>Properties of dependency resolution\<close>

lemma endswith_tail:
  assumes "endswith s suf" "n \<le> length suf"
  shows "drop (length s - n) s = drop (length suf - n) suf"
proof -
  from assms(1) have len: "length suf \<le> length s" and eq: "drop (length s - length suf) s = suf"
    by (simp_all add: endswith_def)
  have "drop (length suf - n) suf = drop (length suf - n) (drop (length s - length suf) s)"
    by (simp add: eq)
  also have "\<dots> = drop (length s - n) s"
    using len assms(2) by (simp add: add.commute)
  finally show ?thesis by simp
qed

lemma endswith_tail2: "endswith s suf \<Longrightarrow> 2 \<le> length suf \<Longrightarrow> tail2 s = tail2 suf"
  unfolding tail2_def by (rule endswith_tail)

lemma derived_exclusive:
  assumes "a \<in> set derived_suffixes" "b \<in> set derived_suffixes" "endswith s a" "endswith s b"
  shows "a = b"
proof -
  from assms(1,3) have "tail2 s = tail2 a"
    by (intro endswith_tail2) (auto simp: derived_suffixes_def)
  moreover from assms(2,4) have "tail2 s = tail2 b"
    by (intro endswith_tail2) (auto simp: derived_suffixes_def)
  ultimately have "tail2 a = tail2 b" by simp
  with assms(1,2) show ?thesis
    by (auto simp: derived_suffixes_def tail2_def)
qed

lemma derived_not_partial_kind:
  assumes "a \<in> set derived_suffixes" "endswith s a"
  shows "\<not> endswith s (partial_value t)"
proof
  assume "endswith s (partial_value t)"
  then have "tail2 s = tail2 (partial_value t)"
    by (intro endswith_tail2) (cases t; simp)+
  moreover from assms have "tail2 s = tail2 a"
    by (intro endswith_tail2) (auto simp: derived_suffixes_def)
  ultimately have "tail2 a = tail2 (partial_value t)" by simp
  with assms(1) show False
    by (cases t) (auto simp: derived_suffixes_def tail2_def)
qed

lemma hook_of_suffix:
  assumes "suf \<in> set derived_suffixes" "endswith (metric_name metric) suf"
  shows "MapMetricProvider_get_evaluation_dependencies_hook metric
           = unexpected_condition_dependency metric suf"
proof -
  have other: "\<not> endswith (metric_name metric) b" if "b \<in> set derived_suffixes" "b \<noteq> suf" for b
    using derived_exclusive [OF that(1) assms(1) _ assms(2)] that(2) by blast
  from assms show ?thesis
    using other
    by (auto simp: derived_suffixes_def MapMetricProvider_get_evaluation_dependencies_hook_def)
qed

lemma hook_of_other:
  assumes "\<forall>suf \<in> set derived_suffixes. \<not> endswith (metric_name metric) suf"
  shows "MapMetricProvider_get_evaluation_dependencies_hook metric = Map.empty"
  using assms
  by (simp add: derived_suffixes_def MapMetricProvider_get_evaluation_dependencies_hook_def)

lemma partial_loop_none:
  assumes "\<not> ends_with_partial_kind (metric_name metric)"
  shows "fold (partial_fn_step metric) MetricPartialFunctionTypes_members Map.empty = Map.empty"
  using assms
  by (simp add: ends_with_partial_kind_def MetricPartialFunctionTypes_members_def partial_fn_step_def)

lemma partial_loop_some:
  assumes "ends_with_partial_kind (metric_name metric)"
  shows "fold (partial_fn_step metric) MetricPartialFunctionTypes_members Map.empty
           = [''metric_partial_fn'' \<mapsto> metric]"
  using assms
  by (auto simp add: ends_with_partial_kind_def MetricPartialFunctionTypes_members_def partial_fn_step_def)

lemma derived_not_partial:
  assumes "suf \<in> set derived_suffixes" "endswith s suf"
  shows "\<not> ends_with_partial_kind s"
  using derived_not_partial_kind [OF assms]
  by (simp add: ends_with_partial_kind_def list_ex_iff)

lemma base_kwargs_eq:
  "base_metric_value_kwargs metric = (metric_value_kwargs metric)(''result_format'' := None)"
  by (auto simp: base_metric_value_kwargs_def)

text \<open>
  C1. A name that ends with one of the five derived-metric suffixes resolves to exactly one
  dependency, under the role \<open>unexpected_condition\<close>: the name with the suffix stripped,
  the same domain kwargs, and the value kwargs without the key \<open>result_format\<close>. A name
  that ends with no such suffix and with no partial kind resolves to the empty dictionary.
\<close>

theorem C1_suffix_dependency:
  "(suf \<in> set derived_suffixes \<and> endswith (metric_name metric) suf \<longrightarrow>
      get_evaluation_dependencies MapMetricProvider_get_evaluation_dependencies_hook metric
        = [''unexpected_condition'' \<mapsto>
             \<lparr>metric_name = strip_last (metric_name metric) suf,
              metric_domain_kwargs = metric_domain_kwargs metric,
              metric_value_kwargs = (metric_value_kwargs metric)(''result_format'' := None)\<rparr>])
   \<and> ((\<forall>s \<in> set derived_suffixes. \<not> endswith (metric_name metric) s)
        \<and> \<not> ends_with_partial_kind (metric_name metric) \<longrightarrow>
      get_evaluation_dependencies MapMetricProvider_get_evaluation_dependencies_hook metric = Map.empty)"
proof (intro conjI impI)
  assume a: "suf \<in> set derived_suffixes \<and> endswith (metric_name metric) suf"
  then have "\<not> ends_with_partial_kind (metric_name metric)"
    using derived_not_partial by blast
  then have "fold (partial_fn_step metric) MetricPartialFunctionTypes_members Map.empty = Map.empty"
    by (rule partial_loop_none)
  moreover have "MapMetricProvider_get_evaluation_dependencies_hook metric
           = unexpected_condition_dependency metric suf"
    using a hook_of_suffix by blast
  ultimately show "get_evaluation_dependencies MapMetricProvider_get_evaluation_dependencies_hook metric
        = [''unexpected_condition'' \<mapsto>
             \<lparr>metric_name = strip_last (metric_name metric) suf,
              metric_domain_kwargs = metric_domain_kwargs metric,
              metric_value_kwargs = (metric_value_kwargs metric)(''result_format'' := None)\<rparr>]"
    by (simp add: get_evaluation_dependencies_def nested_update_def
        unexpected_condition_dependency_def base_kwargs_eq)
next
  assume a: "(\<forall>s \<in> set derived_suffixes. \<not> endswith (metric_name metric) s)
        \<and> \<not> ends_with_partial_kind (metric_name metric)"
  then show "get_evaluation_dependencies MapMetricProvider_get_evaluation_dependencies_hook metric = Map.empty"
    by (simp add: get_evaluation_dependencies_def nested_update_def hook_of_other partial_loop_none)
qed

theorem C1_suffix_dependency_witness:
  "''.unexpected_count'' \<in> set derived_suffixes
   \<and> endswith (metric_name example_metric) ''.unexpected_count''
   \<and> get_evaluation_dependencies MapMetricProvider_get_evaluation_dependencies_hook example_metric
        = [''unexpected_condition'' \<mapsto> example_base_metric]
   \<and> get_evaluation_dependencies MapMetricProvider_get_evaluation_dependencies_hook example_base_metric
        = Map.empty"
proof -
  have h1: "''.unexpected_count'' \<in> set derived_suffixes
      \<and> endswith (metric_name example_metric) ''.unexpected_count''"
    by (simp add: derived_suffixes_def endswith_def example_metric_def)
  have h2: "(\<forall>s \<in> set derived_suffixes. \<not> endswith (metric_name example_base_metric) s)
      \<and> \<not> ends_with_partial_kind (metric_name example_base_metric)"
    by (simp add: derived_suffixes_def endswith_def ends_with_partial_kind_def
        MetricPartialFunctionTypes_members_def example_base_metric_def)
  have kw: "(metric_value_kwargs example_metric)(''result_format'' := None)
      = metric_value_kwargs example_base_metric"
    by (auto simp: example_metric_def example_base_metric_def)
  have nm: "strip_last (metric_name example_metric) ''.unexpected_count'' = metric_name example_base_metric"
    by (simp add: strip_last_def example_metric_def example_base_metric_def)
  have dm: "metric_domain_kwargs example_metric = metric_domain_kwargs example_base_metric"
    by (simp add: example_metric_def example_base_metric_def)
  from C1_suffix_dependency [of "''.unexpected_count''" example_metric] h1
  have "get_evaluation_dependencies MapMetricProvider_get_evaluation_dependencies_hook example_metric
        = [''unexpected_condition'' \<mapsto> example_base_metric]"
    by (simp add: kw nm dm) (simp add: example_base_metric_def)
  moreover from C1_suffix_dependency [of "''.unexpected_count''" example_base_metric] h2
  have "get_evaluation_dependencies MapMetricProvider_get_evaluation_dependencies_hook example_base_metric
        = Map.empty"
    by blast
  ultimately show ?thesis using h1 by blast
qed

section \<open>Properties of registration and of the partial-function dependency\<close>

lemma map_hook_no_partial_role:
  "MapMetricProvider_get_evaluation_dependencies_hook metric ''metric_partial_fn'' = None"
  by (simp add: MapMetricProvider_get_evaluation_dependencies_hook_def
      unexpected_condition_dependency_def)

lemma partial_loop:
  "fold (partial_fn_step metric) MetricPartialFunctionTypes_members Map.empty
     = (if ends_with_partial_kind (metric_name metric) then [''metric_partial_fn'' \<mapsto> metric]
        else Map.empty)"
  by (auto simp add: ends_with_partial_kind_def MetricPartialFunctionTypes_members_def
      partial_fn_step_def)

text \<open>
  C3, as the code has it. The dependency under the role \<open>metric_partial_fn\<close>, a configuration
  equal to the input, is added exactly when the metric's \<^emph>\<open>name\<close> ends with the value of one of
  the five partial kinds; resolution never reads the function kind a backend declares.
\<close>

theorem C3_partial_fn_by_name:
  "get_evaluation_dependencies MetricProvider_get_evaluation_dependencies_hook metric
     = (if ends_with_partial_kind (metric_name metric) then [''metric_partial_fn'' \<mapsto> metric]
        else Map.empty)
   \<and> get_evaluation_dependencies MapMetricProvider_get_evaluation_dependencies_hook metric
        ''metric_partial_fn''
     = (if ends_with_partial_kind (metric_name metric) then Some metric else None)"
proof
  show "get_evaluation_dependencies MetricProvider_get_evaluation_dependencies_hook metric
     = (if ends_with_partial_kind (metric_name metric) then [''metric_partial_fn'' \<mapsto> metric]
        else Map.empty)"
    by (simp add: get_evaluation_dependencies_def nested_update_def partial_loop
        MetricProvider_get_evaluation_dependencies_hook_def)
next
  show "get_evaluation_dependencies MapMetricProvider_get_evaluation_dependencies_hook metric
        ''metric_partial_fn''
     = (if ends_with_partial_kind (metric_name metric) then Some metric else None)"
    by (simp add: get_evaluation_dependencies_def nested_update_def partial_loop
        map_add_def map_hook_no_partial_role)
qed

theorem C3_partial_fn_by_name_witness:
  "get_evaluation_dependencies MetricProvider_get_evaluation_dependencies_hook sum_metric = Map.empty
   \<and> get_evaluation_dependencies MetricProvider_get_evaluation_dependencies_hook
         (sum_metric\<lparr>metric_name := ''column.aggregate.sum.aggregate_fn''\<rparr>)
       = [''metric_partial_fn'' \<mapsto> sum_metric\<lparr>metric_name := ''column.aggregate.sum.aggregate_fn''\<rparr>]"
proof -
  have n: "\<not> ends_with_partial_kind (metric_name sum_metric)"
    by (simp add: ends_with_partial_kind_def MetricPartialFunctionTypes_members_def endswith_def
        sum_metric_def)
  have y: "ends_with_partial_kind
      (metric_name (sum_metric\<lparr>metric_name := ''column.aggregate.sum.aggregate_fn''\<rparr>))"
    by (simp add: ends_with_partial_kind_def MetricPartialFunctionTypes_members_def endswith_def)
  from C3_partial_fn_by_name [of sum_metric] n
    C3_partial_fn_by_name [of "sum_metric\<lparr>metric_name := ''column.aggregate.sum.aggregate_fn''\<rparr>"] y
  show ?thesis by simp
qed

text \<open>
  C3 as stated fails: the base hook registers \<open>column.aggregate.sum\<close> with the partial kind
  \<open>aggregate_fn\<close>, and resolving that name yields no \<open>metric_partial_fn\<close> dependency.
\<close>

theorem C3_declared_kind_counterexample:
  "MetricProvider_register_metric_functions register_metric_spec (\<lambda>r c. Inr r) aggregate_class []
     = Inr aggregate_registry
   \<and> declared_fn_type aggregate_registry ''column.aggregate.sum'' PandasExecutionEngine
       = Some (PartialType AGGREGATE_FN)
   \<and> is_partial_kind (PartialType AGGREGATE_FN)
   \<and> get_evaluation_dependencies MetricProvider_get_evaluation_dependencies_hook sum_metric
        ''metric_partial_fn'' = None"
proof (intro conjI)
  show "MetricProvider_register_metric_functions register_metric_spec (\<lambda>r c. Inr r) aggregate_class []
     = Inr aggregate_registry"
    by (simp add: MetricProvider_register_metric_functions_def aggregate_class_def
        base_register_attribute_def partial_method_def issubclass_ExecutionEngine_def
        metric_name_suffix_def eq_str_def register_metric_spec_def registry_key_def reg_def Let_def
        aggregate_registry_def)
  show "declared_fn_type aggregate_registry ''column.aggregate.sum'' PandasExecutionEngine
       = Some (PartialType AGGREGATE_FN)"
    by (simp add: declared_fn_type_def aggregate_registry_def registry_key_def reg_def)
  show "is_partial_kind (PartialType AGGREGATE_FN)" by simp
  show "get_evaluation_dependencies MetricProvider_get_evaluation_dependencies_hook sum_metric
        ''metric_partial_fn'' = None"
    by (simp add: get_evaluation_dependencies_def nested_update_def
        MetricProvider_get_evaluation_dependencies_hook_def MetricPartialFunctionTypes_members_def
        partial_fn_step_def endswith_def sum_metric_def)
qed






section \<open>Properties of the in-memory backend\<close>

subsection \<open>Null filtering\<close>








lemma and_then_Inr: "and_then (Inr v) f = f v"
  by (simp add: and_then_def)

lemma and_then_Inl: "and_then (Inl e) f = Inl e"
  by (simp add: and_then_def)








subsection \<open>Unexpected values\<close>

lemma length_keep: "length xs = length bs \<Longrightarrow> length (keep xs bs) = length (filter id bs)"
proof (induction xs arbitrary: bs)
  case Nil
  then show ?case by (simp add: keep_def)
next
  case (Cons x xs)
  then obtain b bs' where "bs = b # bs'" by (cases bs) auto
  with Cons show ?case by (auto simp: keep_def)
qed

lemma series_mask_aligned:
  assumes "map fst cond = map fst data"
  shows "series_mask data cond = Inr (keep data (map snd cond))"
  using assms by (simp add: series_mask_def bool_indexer_def and_then_def)

lemma length_unexpected:
  assumes "map fst cond = map fst data"
  shows "length (keep data (map snd cond)) = length (filter snd cond)"
proof -
  from assms have "length data = length (map snd cond)"
    by (metis length_map)
  then have "length (keep data (map snd cond)) = length (filter id (map snd cond))"
    by (rule length_keep)
  also have "\<dots> = length (filter snd cond)"
    by (simp add: filter_map comp_def)
  finally show ?thesis .
qed

lemma values_unfold:
  assumes "metrics ''unexpected_condition'' = Some (cond, cdk, adk0)"
    and "get_compute_domain e cdk None = Inr (df, cdk', adk)"
    and "filter_nulls (get_filter_column_isnull kwarg cls_attr False) df adk = Inr df'"
    and "accessor_column df' adk = Inr data"
    and "map fst cond = map fst data"
    and "v ''result_format'' = Some rf"
  shows "pandas_column_map_values kwarg cls_attr e d v metrics
     = and_then (is_complete rf) (\<lambda>complete.
         if complete then Inr (series_values (keep data (map snd cond)))
         else and_then (py_getitem rf ''partial_unexpected_count'') (\<lambda>n.
              and_then (py_slice_stop n (keep data (map snd cond))) (\<lambda>first.
              Inr (series_values first))))"
  using assms
  by (simp add: pandas_column_map_values_def and_then_Inr kwargs_getitem_def
      series_mask_aligned cong: if_cong)

text \<open>
  C7. When the condition is aligned with the data and true on 10 entries, the format
  \<open>{"result_format": "BASIC", "partial_unexpected_count": 3}\<close> gives exactly the first 3
  of the values on which it is true, in row order, and the format
  \<open>{"result_format": "COMPLETE"}\<close> gives all 10.
\<close>

theorem C7_values_truncation:
  assumes "metrics ''unexpected_condition'' = Some (cond, cdk, adk0)"
    and "get_compute_domain e cdk None = Inr (df, cdk', adk)"
    and "filter_nulls (get_filter_column_isnull kwarg cls_attr False) df adk = Inr df'"
    and "accessor_column df' adk = Inr data"
    and "map fst cond = map fst data"
    and "length (filter snd cond) = 10"
  shows "pandas_column_map_values kwarg cls_attr e d (basic_format 3) metrics
           = Inr (take 3 (series_values (keep data (map snd cond))))
       \<and> length (take 3 (series_values (keep data (map snd cond)))) = 3
       \<and> pandas_column_map_values kwarg cls_attr e d complete_format metrics
           = Inr (series_values (keep data (map snd cond)))
       \<and> length (series_values (keep data (map snd cond))) = 10"
proof -
  have len: "length (keep data (map snd cond)) = 10"
    using length_unexpected [OF assms(5)] assms(6) by simp
  have b: "basic_format 3 ''result_format''
      = Some (VDict [(''result_format'', VStr ''BASIC''), (''partial_unexpected_count'', VInt 3)])"
    by (simp add: basic_format_def)
  have c: "complete_format ''result_format'' = Some (VDict [(''result_format'', VStr ''COMPLETE'')])"
    by (simp add: complete_format_def)
  have basic: "pandas_column_map_values kwarg cls_attr e d (basic_format 3) metrics
           = Inr (take 3 (series_values (keep data (map snd cond))))"
    by (simp add: values_unfold [where metrics = metrics and v = "basic_format 3", OF assms(1-5) b] is_complete_def and_then_Inr slice_to_def
        series_values_def take_map)
  have complete: "pandas_column_map_values kwarg cls_attr e d complete_format metrics
           = Inr (series_values (keep data (map snd cond)))"
    by (simp add: values_unfold [where metrics = metrics and v = complete_format, OF assms(1-5) c] is_complete_def and_then_Inr)
  from basic complete len show ?thesis
    by (simp add: series_values_def)
qed


lemma ten_frame_column:
  "accessor_column ten_frame column_a
     = Inr (map (\<lambda>i. (VInt i, VInt (10 + i))) [0, 1, 2, 3, 4, 5, 6, 7, 8, 9])"
  by (simp add: accessor_column_def kwargs_getitem_def column_a_def and_then_def df_column_def
      ten_frame_def frame_of_def cell_def)

lemma ten_frame_no_nulls:
  "filter_nulls (VBool True) ten_frame column_a = Inr ten_frame"
  by (simp add: filter_nulls_def kwargs_getitem_def column_a_def and_then_def df_column_def
      ten_frame_def frame_of_def cell_def df_mask_def bool_indexer_def notnull_def keep_def)

theorem C7_values_truncation_witness:
  "pandas_column_map_values None MapMetricProvider_filter_column_isnull (frame_engine ten_frame)
       column_a (basic_format 3) [''unexpected_condition'' \<mapsto> (all_true ten_frame, column_a, column_a)]
     = Inr [VInt 10, VInt 11, VInt 12]
   \<and> pandas_column_map_values None MapMetricProvider_filter_column_isnull (frame_engine ten_frame)
       column_a complete_format [''unexpected_condition'' \<mapsto> (all_true ten_frame, column_a, column_a)]
     = Inr [VInt 10, VInt 11, VInt 12, VInt 13, VInt 14, VInt 15, VInt 16, VInt 17, VInt 18, VInt 19]"
proof -
  let ?metrics = "[''unexpected_condition'' \<mapsto> (all_true ten_frame, column_a, column_a)]"
  let ?data = "map (\<lambda>i. (VInt i, VInt (10 + i))) [0, 1, 2, 3, 4, 5, 6, 7, 8, 9]"
  have h1: "?metrics ''unexpected_condition'' = Some (all_true ten_frame, column_a, column_a)"
    by simp
  have h2: "get_compute_domain (frame_engine ten_frame) column_a None
      = Inr (ten_frame, column_a, column_a)"
    by (simp add: frame_engine_def column_a_def)
  have h3: "filter_nulls (get_filter_column_isnull None MapMetricProvider_filter_column_isnull False)
      ten_frame column_a = Inr ten_frame"
    by (simp add: get_filter_column_isnull_def MapMetricProvider_filter_column_isnull_def
        ten_frame_no_nulls)
  have h5: "map fst (all_true ten_frame) = map fst ?data"
    by (simp add: all_true_def ten_frame_def frame_of_def)
  have h6: "length (filter snd (all_true ten_frame)) = 10"
    by (simp add: all_true_def ten_frame_def frame_of_def)
  from C7_values_truncation [where metrics = ?metrics and d = column_a,
      OF h1 h2 h3 ten_frame_column h5 h6]
  show ?thesis
    by (simp add: series_values_def keep_def all_true_def ten_frame_def frame_of_def)
qed

subsection \<open>Unexpected rows\<close>

text \<open>
  C6 fails on the code. With a format that is not COMPLETE the provider evaluates
  \<open>df[condition == True][partial_unexpected_count]\<close>: the count is looked up as a
  column label where \<open>_pandas_column_map_values\<close> slices with \<open>[: count]\<close>. On ten
  unexpected rows and the count 3 it raises \<open>KeyError\<close>; with COMPLETE it returns the
  ten rows.
\<close>

theorem C6_rows_indexed_not_sliced:
  "pandas_column_map_rows None MapMetricProvider_filter_column_isnull (frame_engine ten_frame)
       column_a (basic_format 3) [''unexpected_condition'' \<mapsto> all_true ten_frame]
     = Inl (KeyError (VInt 3))
   \<and> pandas_column_map_rows None MapMetricProvider_filter_column_isnull (frame_engine ten_frame)
       column_a complete_format [''unexpected_condition'' \<mapsto> all_true ten_frame]
     = Inr (Frame ten_frame)"
proof -
  have h2: "get_compute_domain (frame_engine ten_frame) column_a None
      = Inr (ten_frame, column_a, column_a)"
    by (simp add: frame_engine_def column_a_def)
  have h3: "filter_nulls (get_filter_column_isnull None MapMetricProvider_filter_column_isnull False)
      ten_frame column_a = Inr ten_frame"
    by (simp add: get_filter_column_isnull_def MapMetricProvider_filter_column_isnull_def
        ten_frame_no_nulls)
  have m: "df_mask ten_frame (all_true ten_frame) = Inr ten_frame"
    by (simp add: df_mask_def bool_indexer_def all_true_def and_then_def keep_def ten_frame_def
        frame_of_def)
  have g: "df_getitem ten_frame (VInt 3) = Inl (KeyError (VInt 3))"
    by (simp add: df_getitem_def df_column_def and_then_def ten_frame_def frame_of_def)
  show ?thesis
    by (simp add: pandas_column_map_rows_def h2 h3 and_then_Inr and_then_Inl kwargs_getitem_def
        basic_format_def complete_format_def is_complete_def df_mask_optional_def m g)
qed

subsection \<open>Unexpected value counts\<close>

lemma and_then_never:
  assumes "\<And>v. f v \<noteq> Inr y"
  shows "and_then x f \<noteq> Inr y"
  using assms by (cases x) (simp_all add: and_then_def)

lemma truth_test_never:
  "and_then (not_optional_series x)
     (\<lambda>empty. if empty then Inl (MetricError msg) else k empty) \<noteq> Inr y"
  by (cases x) (simp_all add: not_optional_series_def series_bool_def and_then_def)

lemma value_counts_never_Inr:
  "pandas_column_map_value_counts value_counts apply_tuple kwarg cls_attr e d v metrics \<noteq> Inr y"
  unfolding pandas_column_map_value_counts_def Let_def
  by (intro and_then_never truth_test_never | simp only: split_paired_all prod.case)+

text \<open>
  C5 fails on the code. \<open>if not value_counts\<close> asks for the truth value of the histogram,
  a Series, which raises \<open>ValueError\<close>; the test passes only for \<open>None\<close>, and then the
  provider raises \<open>MetricError\<close>. So the provider returns on no input at all, and
  on the column \<open>[1, 1, 2]\<close>, where grouping succeeds, it raises instead of returning
  the histogram.
\<close>

theorem C5_value_counts_never_returns:
  "(\<exists>err. pandas_column_map_value_counts value_counts apply_tuple kwarg cls_attr e d v metrics
       = Inl err)
   \<and> pandas_column_map_value_counts counts_of_example no_tuples None
         MapMetricProvider_filter_column_isnull (frame_engine counts_frame) column_a complete_format
         [''unexpected_condition'' \<mapsto> all_true counts_frame]
       = Inl (ValueError ''The truth value of a Series is ambiguous'')"
proof
  show "\<exists>err. pandas_column_map_value_counts value_counts apply_tuple kwarg cls_attr e d v metrics
       = Inl err"
    using value_counts_never_Inr [of value_counts apply_tuple kwarg cls_attr e d v metrics]
    by (cases "pandas_column_map_value_counts value_counts apply_tuple kwarg cls_attr e d v metrics")
      auto
next
  have h2: "get_compute_domain (frame_engine counts_frame) column_a None
      = Inr (counts_frame, column_a, column_a)"
    by (simp add: frame_engine_def column_a_def)
  have h3: "filter_nulls (get_filter_column_isnull None MapMetricProvider_filter_column_isnull False)
      counts_frame column_a = Inr counts_frame"
    by (simp add: get_filter_column_isnull_def MapMetricProvider_filter_column_isnull_def
        filter_nulls_def kwargs_getitem_def column_a_def and_then_def df_column_def
        counts_frame_def frame_of_def cell_def df_mask_def bool_indexer_def notnull_def keep_def)
  have h4: "accessor_column counts_frame column_a
      = Inr [(VInt 0, VInt 1), (VInt 1, VInt 1), (VInt 2, VInt 2)]"
    by (simp add: accessor_column_def kwargs_getitem_def column_a_def and_then_def df_column_def
        counts_frame_def frame_of_def cell_def)
  have t: "try_value_counts counts_of_example no_tuples
      [(VInt 0, VInt 1), (VInt 1, VInt 1), (VInt 2, VInt 2)] (Some (all_true counts_frame))
      = Inr (Some [(VInt 1, 2), (VInt 2, 1)])"
    by (simp add: try_value_counts_def series_mask_optional_def series_mask_def bool_indexer_def
        all_true_def counts_frame_def frame_of_def and_then_def counts_of_example_def)
  show "pandas_column_map_value_counts counts_of_example no_tuples None
         MapMetricProvider_filter_column_isnull (frame_engine counts_frame) column_a complete_format
         [''unexpected_condition'' \<mapsto> all_true counts_frame]
       = Inl (ValueError ''The truth value of a Series is ambiguous'')"
    by (simp add: pandas_column_map_value_counts_def h2 h3 h4 t and_then_Inr and_then_Inl
        kwargs_getitem_def complete_format_def not_optional_series_def series_bool_def)
qed

text \<open>
  The part of C5 that holds: when grouping and the fallback on tuples both raise
  \<open>ValueError\<close>, the provider raises \<open>MetricError\<close> with the message of the claim.
\<close>

lemma value_counts_fallback_fails:
  assumes "get_compute_domain e d None = Inr (df, cdk, adk)"
    and "filter_nulls (get_filter_column_isnull kwarg cls_attr False) df adk = Inr df'"
    and "accessor_column df' adk = Inr data"
    and "v ''result_format'' = Some rf"
    and "metrics ''unexpected_condition'' = Some cond"
    and "series_mask data cond = Inr unexpected"
    and "value_counts unexpected = Inl (ValueError m1)"
    and "and_then (apply_tuple unexpected) value_counts = Inl (ValueError m2)"
  shows "pandas_column_map_value_counts value_counts apply_tuple kwarg cls_attr e d v metrics
           = Inl (MetricError ''Unable to compute value counts'')"
  using assms
  by (simp add: pandas_column_map_value_counts_def and_then_Inr kwargs_getitem_def
      try_value_counts_def series_mask_optional_def is_ValueError_def not_optional_series_def)

section \<open>Properties of the SQL and distributed backends\<close>

lemma sql_value_counts_mismatch:
  assumes "get_compute_domain e d None = Inr (sel, cdk, adk)"
    and "metrics ''unexpected_condition'' = Some (cond, fdk)"
    and "fdk \<noteq> cdk"
  shows "sqlalchemy_column_map_value_counts e d v metrics = Inl domain_assertion"
  using assms by (simp add: sqlalchemy_column_map_value_counts_def and_then_Inr)

lemma sql_values_mismatch:
  assumes "get_compute_domain e d None = Inr (sel, cdk, adk)"
    and "metrics ''unexpected_condition'' = Some (cond, fdk)"
    and "fdk \<noteq> cdk"
  shows "sqlalchemy_column_map_values e d v metrics
           = (case v ''result_format'' of
                None \<Rightarrow> Inl (KeyError (VStr ''result_format''))
              | Some rf \<Rightarrow> Inl domain_assertion)"
  using assms
  by (simp add: sqlalchemy_column_map_values_def and_then_Inr and_then_Inl kwargs_getitem_def
      split: option.split)

lemma sql_rows_mismatch:
  assumes "get_compute_domain e d None = Inr (sel, cdk, adk)"
    and "metrics ''unexpected_condition'' = Some (cond, fdk)"
    and "fdk \<noteq> cdk"
  shows "sqlalchemy_column_map_rows e d v metrics
           = (case v ''result_format'' of
                None \<Rightarrow> Inl (KeyError (VStr ''result_format''))
              | Some rf \<Rightarrow> Inl domain_assertion)"
  using assms
  by (simp add: sqlalchemy_column_map_rows_def and_then_Inr and_then_Inl kwargs_getitem_def
      split: option.split)

lemma spark_rows_own_domain: "spark_column_map_rows e d v metrics = spark_column_map_rows e d' v metrics"
  by (simp add: spark_column_map_rows_def)

lemma spark_value_counts_own_domain:
  "spark_column_map_value_counts g e d v metrics = spark_column_map_value_counts g e d' v metrics"
  by (simp add: spark_column_map_value_counts_def)

lemma spark_values_own_domain:
  assumes "d ''column'' = d' ''column''"
  shows "spark_column_map_values e d v metrics = spark_column_map_values e d' v metrics"
proof -
  have eq: "kwargs_getitem d ''column'' = kwargs_getitem d' ''column''"
    by (simp add: kwargs_getitem_def assms)
  show ?thesis
    unfolding spark_column_map_values_def eq by (rule refl)
qed

text \<open>
  C2, as the code has it. On the SQL backend each of the three providers compares the
  compute domain kwargs recorded with the condition with those it resolves from its
  own domain kwargs, and raises \<open>AssertionError\<close> when they differ, before any query is
  built or executed. On the distributed backend the three providers make no
  comparison: they resolve the data from the kwargs recorded with the condition and
  never from their own domain kwargs, of which only \<open>unexpected_values\<close> reads the
  column name; so their result is the same for any other domain kwargs of the call.
\<close>

theorem C2_domain_mismatch:
  assumes "get_compute_domain e d None = Inr (sel, cdk, adk)"
    and "metrics ''unexpected_condition'' = Some (cond, fdk)"
    and "fdk \<noteq> cdk"
    and "v ''result_format'' = Some rf"
  shows "sqlalchemy_column_map_values e d v metrics = Inl domain_assertion
       \<and> sqlalchemy_column_map_value_counts e d v metrics = Inl domain_assertion
       \<and> sqlalchemy_column_map_rows e d v metrics = Inl domain_assertion
       \<and> spark_column_map_rows se d v smetrics = spark_column_map_rows se d' v smetrics
       \<and> spark_column_map_value_counts g se d v smetrics
           = spark_column_map_value_counts g se d' v smetrics
       \<and> spark_column_map_values se d v smetrics
           = spark_column_map_values se (d'(''column'' := d ''column'')) v smetrics"
  using sql_values_mismatch [where metrics = metrics and v = v, OF assms(1-3)]
    sql_value_counts_mismatch [where metrics = metrics and v = v, OF assms(1-3)]
    sql_rows_mismatch [where metrics = metrics and v = v, OF assms(1-3)]
    spark_rows_own_domain [of se d v smetrics d']
    spark_value_counts_own_domain [of g se d v smetrics d']
    spark_values_own_domain [of d "d'(''column'' := d ''column'')" se v smetrics]
    assms(4)
  by simp

lemma filtered_domain_differs: "filtered_domain \<noteq> column_a"
proof
  assume "filtered_domain = column_a"
  then have "filtered_domain ''row_condition'' = column_a ''row_condition''" by simp
  then show False by (simp add: filtered_domain_def column_a_def)
qed

theorem C2_domain_mismatch_witness:
  "sqlalchemy_column_map_values echo_sql_engine column_a (basic_format 3)
       [''unexpected_condition'' \<mapsto> ((), filtered_domain)] = Inl domain_assertion
   \<and> sqlalchemy_column_map_value_counts echo_sql_engine column_a (basic_format 3)
       [''unexpected_condition'' \<mapsto> ((), filtered_domain)] = Inl domain_assertion
   \<and> sqlalchemy_column_map_rows echo_sql_engine column_a (basic_format 3)
       [''unexpected_condition'' \<mapsto> ((), filtered_domain)] = Inl domain_assertion"
proof -
  let ?metrics = "[''unexpected_condition'' \<mapsto> ((), filtered_domain)]"
  have h1: "get_compute_domain echo_sql_engine column_a None = Inr ((), column_a, column_a)"
    by (simp add: echo_sql_engine_def column_a_def)
  have h2: "?metrics ''unexpected_condition'' = Some ((), filtered_domain)" by simp
  have h4: "basic_format 3 ''result_format''
      = Some (VDict [(''result_format'', VStr ''BASIC''), (''partial_unexpected_count'', VInt 3)])"
    by (simp add: basic_format_def)
  from C2_domain_mismatch [where metrics = ?metrics and v = "basic_format 3" and e = echo_sql_engine,
      OF h1 h2 filtered_domain_differs h4]
  show ?thesis by simp
qed

text \<open>
  C2 as stated fails on the distributed backend: the call's own domain kwargs resolve to
  the whole column and differ from the kwargs recorded with the condition, which carry
  a row filter, and the provider returns a result, computed over the filtered rows.
\<close>

theorem C2_spark_counterexample:
  "get_compute_domain row_filter_engine column_a None
     = Inr (spark_of [VInt 1, VNone, VInt 3], column_a, column_a)
   \<and> filtered_domain \<noteq> column_a
   \<and> spark_column_map_values row_filter_engine column_a complete_format
       [''unexpected_condition'' \<mapsto> (not_greater_than_2, filtered_domain)]
     = Inr [VInt 1]"
proof (intro conjI)
  show "get_compute_domain row_filter_engine column_a None
     = Inr (spark_of [VInt 1, VNone, VInt 3], column_a, column_a)"
    by (simp add: row_filter_engine_def column_a_def)
  show "filtered_domain \<noteq> column_a" by (rule filtered_domain_differs)
  have g: "get_compute_domain row_filter_engine filtered_domain None
     = Inr (spark_of [VInt 1, VInt 3], filtered_domain, column_a)"
    by (simp add: row_filter_engine_def column_a_def filtered_domain_def)
  have u: "unexpected_rows (spark_of [VInt 1, VInt 3]) not_greater_than_2
     = Inr (spark_of [VInt 1])"
    by (simp add: unexpected_rows_def withColumn_def filter_true_def drop_column_def spark_of_def
        not_greater_than_2_def and_then_def)
  have s: "select_column (spark_of [VInt 1]) (VStr ''a'') = Inr (spark_of [VInt 1])"
    by (simp add: select_column_def spark_of_def)
  have r: "sp_rows (spark_of [VInt 1]) = [[(''a'', VInt 1)]]"
    by (simp add: spark_of_def)
  show "spark_column_map_values row_filter_engine column_a complete_format
       [''unexpected_condition'' \<mapsto> (not_greater_than_2, filtered_domain)]
     = Inr [VInt 1]"
    by (simp add: spark_column_map_values_def g u s r and_then_Inr kwargs_getitem_def
        complete_format_def column_a_def is_complete_def row_getitem_def)
qed

section \<open>Properties of the configuration of an execution environment\<close>

subsection \<open>The copy in progress\<close>

lemma ren_mono: "known m v \<Longrightarrow> m \<subseteq>\<^sub>m m' \<Longrightarrow> ren m' v = ren m v"
  by (cases v) (auto simp: ren_def known_def map_le_def dom_def)

lemma known_mono: "known m v \<Longrightarrow> m \<subseteq>\<^sub>m m' \<Longrightarrow> known m' v"
  by (cases v) (auto simp: known_def map_le_def dom_def)

lemma map_ren_mono:
  "list_all (known m) vs \<Longrightarrow> m \<subseteq>\<^sub>m m' \<Longrightarrow> map (ren m') vs = map (ren m) vs"
  by (induction vs) (auto simp: ren_mono)

lemma list_known_mono:
  "list_all (known m) vs \<Longrightarrow> m \<subseteq>\<^sub>m m' \<Longrightarrow> list_all (known m') vs"
  by (induction vs) (auto simp: known_mono)

lemma copy_invD:
  assumes inv: "copy_inv h0 P h m"
  shows "length h0 \<le> length h" and "take (length h0) h = h0"
    and "P \<subseteq> dom m"
    and "\<And>x y. m x = Some y \<Longrightarrow> x < length h0 \<and> length h0 \<le> y \<and> y < length h"
    and "\<And>x x' y. m x = Some y \<Longrightarrow> m x' = Some y \<Longrightarrow> x = x'"
    and "\<And>y. length h0 \<le> y \<Longrightarrow> y < length h \<Longrightarrow> \<exists>x. m x = Some y"
    and "\<And>x y. m x = Some y \<Longrightarrow> x \<in> P \<Longrightarrow> h ! y = empty_like (h0 ! x)"
    and "\<And>x y. m x = Some y \<Longrightarrow> x \<notin> P \<Longrightarrow>
          h ! y = rebuild (h0 ! x) (map (ren m) (children (h0 ! x)))
          \<and> list_all (known m) (children (h0 ! x))"
  using inv unfolding copy_inv_def by blast+

lemma inv_original:
  assumes "copy_inv h0 P h m" and "x < length h0"
  shows "h ! x = h0 ! x"
proof -
  have "take (length h0) h ! x = h ! x" using assms(2) by simp
  with copy_invD(2) [OF assms(1)] show ?thesis by simp
qed

lemma copy_invI:
  assumes "length h0 \<le> length h" and "take (length h0) h = h0" and "P \<subseteq> dom m"
    and "\<And>x y. m x = Some y \<Longrightarrow> x < length h0 \<and> length h0 \<le> y \<and> y < length h"
    and "\<And>x x' y. m x = Some y \<Longrightarrow> m x' = Some y \<Longrightarrow> x = x'"
    and "\<And>y. length h0 \<le> y \<Longrightarrow> y < length h \<Longrightarrow> \<exists>x. m x = Some y"
    and "\<And>x y. m x = Some y \<Longrightarrow> x \<in> P \<Longrightarrow> h ! y = empty_like (h0 ! x)"
    and "\<And>x y. m x = Some y \<Longrightarrow> x \<notin> P \<Longrightarrow>
          h ! y = rebuild (h0 ! x) (map (ren m) (children (h0 ! x)))
          \<and> list_all (known m) (children (h0 ! x))"
  shows "copy_inv h0 P h m"
  unfolding copy_inv_def
  by (intro conjI allI impI) (use assms in blast)+

lemma inv_alloc:
  assumes inv: "copy_inv h0 P h m" and new: "m x = None" and x: "x < length h0"
  shows "copy_inv h0 (insert x P) (h @ [empty_like (h0 ! x)]) (m(x \<mapsto> length h))"
proof -
  let ?h = "h @ [empty_like (h0 ! x)]" and ?m = "m(x \<mapsto> length h)"
  note len = copy_invD(1) [OF inv] and tk = copy_invD(2) [OF inv] and P = copy_invD(3) [OF inv]
    and rng = copy_invD(4) [OF inv] and inj = copy_invD(5) [OF inv] and sur = copy_invD(6) [OF inv]
    and pend = copy_invD(7) [OF inv] and fill = copy_invD(8) [OF inv]
  have le: "m \<subseteq>\<^sub>m ?m" using new by (auto simp: map_le_def)
  have c1: "length h0 \<le> length ?h" using len by simp
  have c2: "take (length h0) ?h = h0" using len tk by simp
  have c3: "insert x P \<subseteq> dom ?m" using P by auto
  have c4: "x' < length h0 \<and> length h0 \<le> y \<and> y < length ?h" if "?m x' = Some y" for x' y
    using that rng [of x' y] x len by (auto split: if_splits)
  have c5: "x1 = x2" if "?m x1 = Some y" "?m x2 = Some y" for x1 x2 y
  proof (cases "x1 = x")
    case True
    with that(1) have y: "y = length h" by simp
    show ?thesis
    proof (rule ccontr)
      assume "x1 \<noteq> x2"
      with True that(2) have "m x2 = Some y" by simp
      from rng [OF this] y show False by simp
    qed
  next
    case False
    with that(1) have m1: "m x1 = Some y" by simp
    from rng [OF m1] have "y \<noteq> length h" by simp
    with that(2) have "m x2 = Some y" by (auto split: if_splits)
    with m1 show ?thesis by (rule inj)
  qed
  have c6: "\<exists>x'. ?m x' = Some y" if "length h0 \<le> y" "y < length ?h" for y
  proof (cases "y = length h")
    case True
    then show ?thesis by auto
  next
    case False
    with that have "y < length h" by simp
    from sur [OF that(1) this] obtain x' where "m x' = Some y" by blast
    with new have "?m x' = Some y" by auto
    then show ?thesis by blast
  qed
  have c7: "?h ! y = empty_like (h0 ! x')" if "?m x' = Some y" "x' \<in> insert x P" for x' y
  proof (cases "x' = x")
    case True
    with that have "y = length h" by simp
    with True show ?thesis by simp
  next
    case False
    with that have m: "m x' = Some y" and p: "x' \<in> P" by auto
    from rng [OF m] have "y < length h" by simp
    with pend [OF m p] show ?thesis by (simp add: nth_append)
  qed
  have c8: "?h ! y = rebuild (h0 ! x') (map (ren ?m) (children (h0 ! x')))
          \<and> list_all (known ?m) (children (h0 ! x'))" if "?m x' = Some y" "x' \<notin> insert x P" for x' y
  proof -
    from that have m: "m x' = Some y" and p: "x' \<notin> P" by (auto split: if_splits)
    from rng [OF m] have y: "y < length h" by simp
    from fill [OF m p] have f: "h ! y = rebuild (h0 ! x') (map (ren m) (children (h0 ! x')))"
      and k: "list_all (known m) (children (h0 ! x'))" by simp_all
    from f y have hq: "?h ! y = rebuild (h0 ! x') (map (ren m) (children (h0 ! x')))"
      by (simp add: nth_append)
    have r: "map (ren ?m) (children (h0 ! x')) = map (ren m) (children (h0 ! x'))"
      by (rule map_ren_mono [OF k le])
    have kn: "list_all (known ?m) (children (h0 ! x'))"
      by (rule list_known_mono [OF k le])
    from hq kn show ?thesis unfolding r by (rule conjI)
  qed
  show ?thesis
    by (rule copy_invI [OF c1 c2 c3 c4 c5 c6 c7 c8])
qed

lemma inv_fill:
  assumes inv: "copy_inv h0 (insert x P) h m" and x: "x \<notin> P" and mx: "m x = Some y"
    and k: "list_all (known m) (children (h0 ! x))"
  shows "copy_inv h0 P (h[y := rebuild (h0 ! x) (map (ren m) (children (h0 ! x)))]) m"
proof -
  let ?h = "h[y := rebuild (h0 ! x) (map (ren m) (children (h0 ! x)))]"
  note len = copy_invD(1) [OF inv] and tk = copy_invD(2) [OF inv] and P = copy_invD(3) [OF inv]
    and rng = copy_invD(4) [OF inv] and inj = copy_invD(5) [OF inv] and sur = copy_invD(6) [OF inv]
    and pend = copy_invD(7) [OF inv] and fill = copy_invD(8) [OF inv]
  from rng [OF mx] have y: "length h0 \<le> y" "y < length h" by simp_all
  have c1: "length h0 \<le> length ?h" using len by simp
  have c2: "take (length h0) ?h = h0" using tk y by simp
  have c3: "P \<subseteq> dom m" using P by simp
  have c4: "x' < length h0 \<and> length h0 \<le> y' \<and> y' < length ?h" if "m x' = Some y'" for x' y'
    using rng [OF that] by simp
  have c6: "\<exists>x'. m x' = Some y'" if "length h0 \<le> y'" "y' < length ?h" for y'
    using sur [of y'] that by simp
  have c7: "?h ! y' = empty_like (h0 ! x')" if "m x' = Some y'" "x' \<in> P" for x' y'
  proof -
    from that x have "x' \<noteq> x" by blast
    with inj [OF that(1), of x] mx have "y' \<noteq> y" by blast
    with pend [OF that(1)] that(2) show ?thesis by simp
  qed
  have c8: "?h ! y' = rebuild (h0 ! x') (map (ren m) (children (h0 ! x')))
          \<and> list_all (known m) (children (h0 ! x'))" if "m x' = Some y'" "x' \<notin> P" for x' y'
  proof (cases "x' = x")
    case True
    with that mx have "y' = y" by simp
    with True y k show ?thesis by simp
  next
    case False
    with inj [OF that(1), of x] mx have "y' \<noteq> y" by blast
    with fill [OF that(1)] that(2) False show ?thesis by simp
  qed
  show ?thesis
    by (rule copy_invI [OF c1 c2 c3 c4 inj c6 c7 c8])
qed


lemma wf_children:
  assumes "wf_heap h0" and "x < length h0"
  shows "list_all (is_address h0) (children (h0 ! x))"
  using assms by (simp add: wf_heap_def list_all_length)

lemma deepcopy_spec:
  assumes wf: "wf_heap h0"
  shows "deepcopy n h m v = Some (h', m', v') \<Longrightarrow> copy_inv h0 P h m \<Longrightarrow> is_address h0 v
           \<Longrightarrow> copy_inv h0 P h' m' \<and> m \<subseteq>\<^sub>m m' \<and> v' = ren m' v \<and> known m' v"
    and "deepcopy_list n h m vs = Some (h', m', vs') \<Longrightarrow> copy_inv h0 P h m
           \<Longrightarrow> list_all (is_address h0) vs
           \<Longrightarrow> copy_inv h0 P h' m' \<and> m \<subseteq>\<^sub>m m' \<and> vs' = map (ren m') vs
               \<and> list_all (known m') vs"
proof (induction n h m v and n h m vs arbitrary: h' m' v' P and h' m' vs' P
    rule: deepcopy_deepcopy_list.induct)
  case (1 n h m a)
  then show ?case by (auto simp: ren_def known_def)
next
  case (2 h m x)
  then show ?case by simp
next
  case (3 n h m x)
  from "3.prems"(3) have x0: "x < length h0" by (simp add: is_address_def)
  show ?case
  proof (cases "m x")
    case (Some y)
    with "3.prems"(1) have "h' = h" "m' = m" "v' = Ref y" by simp_all
    with "3.prems"(2) Some show ?thesis by (simp add: ren_def known_def)
  next
    case None
    note len = copy_invD(1) [OF "3.prems"(2)]
    from x0 len have xh: "x < length h" by simp
    have orig: "h ! x = h0 ! x" by (rule inv_original [OF "3.prems"(2) x0])
    from "3.prems"(1) None xh obtain h1 m1 vs where
      rec: "deepcopy_list n (h @ [empty_like (h ! x)]) (m(x \<mapsto> length h)) (children (h ! x))
              = Some (h1, m1, vs)"
      and res: "h' = h1[length h := rebuild (h ! x) vs]" "m' = m1" "v' = Ref (length h)"
      by (auto split: option.splits)
    have inv1: "copy_inv h0 (insert x P) (h @ [empty_like (h ! x)]) (m(x \<mapsto> length h))"
      unfolding orig by (rule inv_alloc [OF "3.prems"(2) None x0])
    have addr: "list_all (is_address h0) (children (h ! x))"
      unfolding orig by (rule wf_children [OF wf x0])
    from "3.IH" [OF None xh rec inv1 addr]
    have inv2: "copy_inv h0 (insert x P) h1 m1" and le1: "m(x \<mapsto> length h) \<subseteq>\<^sub>m m1"
      and vs: "vs = map (ren m1) (children (h ! x))"
      and kn: "list_all (known m1) (children (h ! x))"
      by blast+
    from le1 have m1x: "m1 x = Some (length h)"
      by (auto simp: map_le_def)
    from copy_invD(3) [OF "3.prems"(2)] None have xP: "x \<notin> P" by auto
    have inv3: "copy_inv h0 P h' m1"
      unfolding res vs orig
      by (rule inv_fill [OF inv2 xP m1x kn [unfolded orig]])
    have "m \<subseteq>\<^sub>m m(x \<mapsto> length h)" using None by (auto simp: map_le_def)
    from this le1 have le: "m \<subseteq>\<^sub>m m1" by (rule map_le_trans)
    from inv3 le m1x res show ?thesis by (simp add: ren_def known_def)
  qed
next
  case (4 n h m)
  then show ?case by simp
next
  case (5 n h m v vs)
  from "5.prems"(1) obtain h1 m1 v1 h2 m2 vs2 where
    first: "deepcopy n h m v = Some (h1, m1, v1)"
    and rest: "deepcopy_list n h1 m1 vs = Some (h2, m2, vs2)"
    and res: "h' = h2" "m' = m2" "vs' = v1 # vs2"
    by (auto split: option.splits)
  from "5.prems"(3) have av: "is_address h0 v" and avs: "list_all (is_address h0) vs" by simp_all
  from "5.IH"(1) [OF first "5.prems"(2) av]
  have inv1: "copy_inv h0 P h1 m1" and le1: "m \<subseteq>\<^sub>m m1" and v1: "v1 = ren m1 v"
    and k1: "known m1 v" by blast+
  from "5.IH"(2) [OF first refl refl rest inv1 avs]
  have inv2: "copy_inv h0 P h2 m2" and le2: "m1 \<subseteq>\<^sub>m m2" and vs2: "vs2 = map (ren m2) vs"
    and k2: "list_all (known m2) vs" by blast+
  from le1 le2 have le: "m \<subseteq>\<^sub>m m2" by (rule map_le_trans)
  from ren_mono [OF k1 le2] v1 have "v1 = ren m2 v" by simp
  with inv2 le vs2 k2 known_mono [OF k1 le2] res show ?case by simp
qed


lemma unmemo_finite: "finite {x. x < length (h0::heap) \<and> (m::memo) x = None}"
  by simp

lemma unmemo_mono:
  assumes "m \<subseteq>\<^sub>m m'"
  shows "card {x. x < length (h0::heap) \<and> m' x = None} \<le> card {x. x < length h0 \<and> m x = None}"
proof (rule card_mono)
  show "finite {x. x < length h0 \<and> m x = None}" by simp
  show "{x. x < length h0 \<and> m' x = None} \<subseteq> {x. x < length h0 \<and> m x = None}"
    using assms by (auto simp: map_le_def dom_def)
qed

lemma unmemo_less:
  assumes "m x = None" and "x < length (h0::heap)"
  shows "card {z. z < length h0 \<and> (m(x \<mapsto> y)) z = None} < card {z. z < length h0 \<and> m z = None}"
proof (rule psubset_card_mono)
  show "finite {z. z < length h0 \<and> m z = None}" by simp
  show "{z. z < length h0 \<and> (m(x \<mapsto> y)) z = None} \<subset> {z. z < length h0 \<and> m z = None}"
    using assms by auto
qed

lemma deepcopy_total:
  assumes wf: "wf_heap h0"
  shows "copy_inv h0 P h m \<Longrightarrow> is_address h0 v
           \<Longrightarrow> card {x. x < length h0 \<and> m x = None} < n
           \<Longrightarrow> \<exists>r. deepcopy n h m v = Some r"
    and "copy_inv h0 P h m \<Longrightarrow> list_all (is_address h0) vs
           \<Longrightarrow> card {x. x < length h0 \<and> m x = None} < n
           \<Longrightarrow> \<exists>r. deepcopy_list n h m vs = Some r"
proof (induction n h m v and n h m vs arbitrary: P and P rule: deepcopy_deepcopy_list.induct)
  case (1 n h m a)
  then show ?case by simp
next
  case (2 h m x)
  then show ?case by simp
next
  case (3 n h m x)
  from "3.prems"(2) have x0: "x < length h0" by (simp add: is_address_def)
  show ?case
  proof (cases "m x")
    case (Some y)
    then show ?thesis by simp
  next
    case None
    from x0 copy_invD(1) [OF "3.prems"(1)] have xh: "x < length h" by simp
    have orig: "h ! x = h0 ! x" by (rule inv_original [OF "3.prems"(1) x0])
    have inv1: "copy_inv h0 (insert x P) (h @ [empty_like (h ! x)]) (m(x \<mapsto> length h))"
      unfolding orig by (rule inv_alloc [OF "3.prems"(1) None x0])
    have addr: "list_all (is_address h0) (children (h ! x))"
      unfolding orig by (rule wf_children [OF wf x0])
    from unmemo_less [of m x h0 "length h"] None x0 "3.prems"(3)
    have "card {z. z < length h0 \<and> (m(x \<mapsto> length h)) z = None} < n" by simp
    from "3.IH" [OF None xh inv1 addr this] obtain r where
      "deepcopy_list n (h @ [empty_like (h ! x)]) (m(x \<mapsto> length h)) (children (h ! x)) = Some r"
      by blast
    with None xh show ?thesis by (cases r) auto
  qed
next
  case (4 n h m)
  then show ?case by simp
next
  case (5 n h m v vs)
  from "5.prems"(2) have av: "is_address h0 v" and avs: "list_all (is_address h0) vs" by simp_all
  from "5.IH"(1) [OF "5.prems"(1) av "5.prems"(3)] obtain h1 m1 v1 where
    first: "deepcopy n h m v = Some (h1, m1, v1)"
    by (metis prod_cases3)
  from deepcopy_spec(1) [OF wf first "5.prems"(1) av]
  have inv1: "copy_inv h0 P h1 m1" and le1: "m \<subseteq>\<^sub>m m1" by blast+
  from unmemo_mono [OF le1, of h0] "5.prems"(3)
  have "card {x. x < length h0 \<and> m1 x = None} < n" by simp
  from "5.IH"(2) [OF first refl refl inv1 avs this] obtain r where
    "deepcopy_list n h1 m1 vs = Some r" by blast
  with first show ?case by (cases r) auto
qed

lemma copy_inv_start: "copy_inv h {} h Map.empty"
  by (simp add: copy_inv_def)

lemma children_rebuild:
  "length vs = length (children ob) \<Longrightarrow> children (rebuild ob vs) = vs"
  by (cases ob) simp_all

lemma content_of_rebuild:
  "length vs = length (children ob) \<Longrightarrow> content_of (rebuild ob vs) cs = content_of ob cs"
  by (cases ob) simp_all

lemma read_copy:
  assumes wf: "wf_heap h" and inv: "copy_inv h {} h' m"
  shows "known m v \<Longrightarrow> is_address h v \<Longrightarrow> read_val k h' (ren m v) = read_val k h v"
proof (induction k arbitrary: v)
  case 0
  then show ?case by (cases v) (auto simp: ren_def split: option.splits)
next
  case (Suc k)
  show ?case
  proof (cases v)
    case (Atom a)
    then show ?thesis by (simp add: ren_def)
  next
    case (Ref x)
    with Suc.prems obtain y where mx: "m x = Some y" and x: "x < length h"
      by (auto simp: known_def is_address_def)
    from copy_invD(4) [OF inv mx] have y: "y < length h'" by simp
    from copy_invD(8) [OF inv mx] have
      hy: "h' ! y = rebuild (h ! x) (map (ren m) (children (h ! x)))"
      and kn: "list_all (known m) (children (h ! x))" by simp_all
    have addr: "list_all (is_address h) (children (h ! x))"
      by (rule wf_children [OF wf x])
    have each: "read_val k h' (ren m c) = read_val k h c" if "c \<in> set (children (h ! x))" for c
      using Suc.IH [of c] kn addr that by (simp add: list_all_iff)
    have ch: "children (h' ! y) = map (ren m) (children (h ! x))"
      unfolding hy by (rule children_rebuild) simp
    have co: "content_of (h' ! y) cs = content_of (h ! x) cs" for cs
      unfolding hy by (rule content_of_rebuild) simp
    have "read_val (Suc k) h' (Ref y)
        = content_of (h ! x) (map (read_val k h') (map (ren m) (children (h ! x))))"
      using y by (simp add: ch co)
    also have "map (read_val k h') (map (ren m) (children (h ! x)))
        = map (read_val k h) (children (h ! x))"
      using each by simp
    finally show ?thesis using Ref mx x by (simp add: ren_def)
  qed
qed

lemma read_extend:
  assumes wf: "wf_heap h" and len: "length h \<le> length hh" and tk: "take (length h) hh = h"
  shows "is_address h v \<Longrightarrow> read_val k hh v = read_val k h v"
proof (induction k arbitrary: v)
  case 0
  then show ?case by (cases v) simp_all
next
  case (Suc k)
  show ?case
  proof (cases v)
    case (Atom a)
    then show ?thesis by simp
  next
    case (Ref x)
    with Suc.prems have x: "x < length h" by (simp add: is_address_def)
    have "take (length h) hh ! x = hh ! x" using x by simp
    with tk have same: "hh ! x = h ! x" by simp
    have addr: "list_all (is_address h) (children (h ! x))"
      by (rule wf_children [OF wf x])
    have "map (read_val k hh) (children (h ! x)) = map (read_val k h) (children (h ! x))"
      using Suc.IH addr by (simp add: list_all_iff)
    then have "content_of (h ! x) (map (read_val k hh) (children (h ! x)))
        = content_of (h ! x) (map (read_val k h) (children (h ! x)))"
      by (rule arg_cong)
    with x len same Ref show ?thesis by simp
  qed
qed

lemma reach_copy:
  assumes inv: "copy_inv h {} h' m" and kn: "known m v"
  shows "a \<in> reach h' (ren m v) \<Longrightarrow> length h \<le> a \<and> a < length h'"
proof (induction rule: reach.induct)
  case (root a)
  with kn obtain x where "v = Ref x" "m x = Some a"
    by (cases v) (auto simp: ren_def known_def split: option.splits)
  from copy_invD(4) [OF inv this(2)] show ?case by simp
next
  case (step a b)
  from copy_invD(6) [OF inv] step.IH obtain x where mx: "m x = Some a" by blast
  from copy_invD(8) [OF inv mx] have
    ha: "h' ! a = rebuild (h ! x) (map (ren m) (children (h ! x)))"
    and k: "list_all (known m) (children (h ! x))" by simp_all
  have "children (h' ! a) = map (ren m) (children (h ! x))"
    unfolding ha by (rule children_rebuild) simp
  with step.hyps(2) obtain c where c: "c \<in> set (children (h ! x))" and b: "Ref b = ren m c"
    by auto
  from k c have "known m c" by (simp add: list_all_iff)
  with b obtain z where "m z = Some b"
    by (cases c) (auto simp: ren_def known_def split: option.splits)
  from copy_invD(4) [OF inv this] show ?case by simp
qed


lemma config_result:
  assumes "config depth h self = Some (h', c)"
  shows "\<exists>m. deepcopy depth h Map.empty (Ref (execution_environment_config self)) = Some (h', m, c)"
  using assms by (auto simp: config_def)

text \<open>
  C10. On a well-formed heap the property \<open>config\<close> returns, given depth for the nesting
  of the configuration. Whenever it returns, no object that existed before the call has
  changed; the value returned reads, to every depth, as the stored configuration does;
  and replacing any object that the returned value reaches leaves every object that
  existed before the call as it was, so the stored configuration still reads the same.
\<close>

theorem C10_config_is_a_deep_copy:
  assumes wf: "wf_heap h" and cfg: "execution_environment_config self < length h"
  shows "(\<exists>h' c. config (Suc (length h)) h self = Some (h', c))
       \<and> (\<forall>depth h' c. config depth h self = Some (h', c) \<longrightarrow>
             take (length h) h' = h
           \<and> (\<forall>k. read_val k h' c = read_val k h (Ref (execution_environment_config self)))
           \<and> (\<forall>a ob. a \<in> reach h' c \<longrightarrow>
                 take (length h) (mutate h' a ob) = h
               \<and> (\<forall>k. read_val k (mutate h' a ob) (Ref (execution_environment_config self))
                        = read_val k h (Ref (execution_environment_config self)))))"
proof (intro conjI allI impI)
  let ?v = "Ref (execution_environment_config self)"
  have addr: "is_address h ?v" using cfg by (simp add: is_address_def)
  have "card {x. x < length h \<and> Map.empty x = None} < Suc (length h)" by simp
  from deepcopy_total(1) [OF wf copy_inv_start addr this]
  obtain r where "deepcopy (Suc (length h)) h Map.empty ?v = Some r" by blast
  then show "\<exists>h' c. config (Suc (length h)) h self = Some (h', c)"
    by (cases r) (simp add: config_def)
next
  fix depth h' c
  let ?v = "Ref (execution_environment_config self)"
  assume "config depth h self = Some (h', c)"
  then obtain m where dc: "deepcopy depth h Map.empty ?v = Some (h', m, c)"
    using config_result by blast
  have addr: "is_address h ?v" using cfg by (simp add: is_address_def)
  from deepcopy_spec(1) [OF wf dc copy_inv_start addr]
  have inv: "copy_inv h {} h' m" and c: "c = ren m ?v" and kn: "known m ?v" by blast+
  note len = copy_invD(1) [OF inv] and tk = copy_invD(2) [OF inv]
  show "take (length h) h' = h" by (rule tk)
  show "read_val k h' c = read_val k h ?v" for k
    unfolding c by (rule read_copy [OF wf inv kn addr])
  {
    fix a ob
    assume "a \<in> reach h' c"
    then have a: "length h \<le> a" using reach_copy [OF inv kn] c by blast
    then show keep: "take (length h) (mutate h' a ob) = h"
      using tk by (simp add: mutate_def)
    have "length h \<le> length (mutate h' a ob)" using len by (simp add: mutate_def)
    from read_extend [OF wf this keep addr]
    show "read_val k (mutate h' a ob) ?v = read_val k h ?v" for k .
  }
qed

theorem C10_config_witness:
  "wf_heap example_env_heap
   \<and> execution_environment_config example_env < length example_env_heap
   \<and> config 4 example_env_heap example_env = Some (copied_heap, Ref 3)
   \<and> 4 \<in> reach copied_heap (Ref 3)
   \<and> read_val 3 (mutate copied_heap 4 (DictObj [(''class_name'', Atom (AStr ''Other''))])) (Ref 2)
       = CDict [(''execution_engine'',
           CDict [(''class_name'', CAtom (AStr ''PandasExecutionEngine'')),
                  (''caching'', CList [CAtom (ABool True)])])]"
proof -
  have wf: "wf_heap example_env_heap"
    by (simp add: wf_heap_def example_env_heap_def BaseExecutionEnvironment_init_def
        caller_heap_def is_address_def)
  have cfg: "execution_environment_config example_env < length example_env_heap"
    by (simp add: example_env_def example_env_heap_def BaseExecutionEnvironment_init_def
        caller_heap_def)
  have run: "config 4 example_env_heap example_env = Some (copied_heap, Ref 3)"
    by (simp add: config_def example_env_def example_env_heap_def copied_heap_def
        BaseExecutionEnvironment_init_def caller_heap_def numeral_eq_Suc)
  have r3: "3 \<in> reach copied_heap (Ref 3)"
    by (rule reach.root) (simp_all add: copied_heap_def example_env_heap_def
        BaseExecutionEnvironment_init_def caller_heap_def)
  have r4: "4 \<in> reach copied_heap (Ref 3)"
    by (rule reach.step [OF r3]) (simp_all add: copied_heap_def example_env_heap_def
        BaseExecutionEnvironment_init_def caller_heap_def)
  have before: "read_val 3 example_env_heap (Ref 2)
       = CDict [(''execution_engine'',
           CDict [(''class_name'', CAtom (AStr ''PandasExecutionEngine'')),
                  (''caching'', CList [CAtom (ABool True)])])]"
    by (simp add: example_env_heap_def BaseExecutionEnvironment_init_def caller_heap_def
        numeral_eq_Suc)
  have two: "execution_environment_config example_env = 2"
    by (simp add: example_env_def BaseExecutionEnvironment_init_def caller_heap_def)
  from C10_config_is_a_deep_copy [OF wf cfg] run r4
  have "read_val 3 (mutate copied_heap 4 (DictObj [(''class_name'', Atom (AStr ''Other''))]))
          (Ref (execution_environment_config example_env))
        = read_val 3 example_env_heap (Ref (execution_environment_config example_env))"
    by blast
  with wf cfg run r4 before two show ?thesis by simp
qed

end
